theory Spec2Isabelle
  imports Main "HOL-Library.Word" "HOL-Library.Monad_Syntax"
begin

unbundle bit_operations_syntax

section \<open>The curl-impersonate shim\<close>

text \<open>
  The source is \<^verbatim>\<open>src/native/curl_impersonate_shim/curl_impersonate_shim.c\<close>: twenty-four
  exported C functions \<^verbatim>\<open>bsn_curl_*\<close>, each calling one function of libcurl.
  libcurl itself is not part of the repository. It is taken as a parameter: a record
  \<open>curl_api\<close> with one field per libcurl function the shim calls, each an arbitrary
  function from the arguments and the world before the call to the returned value and the
  world after it. Every theorem about the shim holds for every such record.
\<close>

subsection \<open>C values\<close>

text \<open>
  The data model is that of the 64-bit little-endian targets (x86-64 and AArch64, on
  Linux, macOS and Windows): a pointer is a 64-bit word and \<open>NULL\<close> is 0; \<^verbatim>\<open>int\<close> and
  the enums \<^verbatim>\<open>CURLcode\<close>, \<^verbatim>\<open>CURLMcode\<close>, \<^verbatim>\<open>CURLoption\<close>, \<^verbatim>\<open>CURLINFO\<close>, \<^verbatim>\<open>CURLMSG\<close> are
  32-bit words. \<^verbatim>\<open>long\<close> is a 64-bit word (it is 32 bits wide on Windows; nothing below
  depends on its width). The shim never computes with any of them except for the
  comparison of a pointer with \<open>NULL\<close> and the cast \<^verbatim>\<open>(int)message->msg\<close>.
\<close>

type_synonym addr = "64 word"
type_synonym c_int = "32 word"
type_synonym c_uint = "32 word"
type_synonym c_long = "64 word"
type_synonym CURLcode = "32 word"
type_synonym CURLMcode = "32 word"
type_synonym CURLoption = "32 word"
type_synonym CURLINFO = "32 word"
type_synonym CURLMSG = "32 word"

definition NULL :: addr where
  "NULL = 0"

text \<open>The cast \<^verbatim>\<open>(int)\<close> applied to a \<^verbatim>\<open>CURLMSG\<close>: the same 32 bits, read as an \<^verbatim>\<open>int\<close>.\<close>

definition int_of_CURLMSG :: "CURLMSG \<Rightarrow> c_int" where
  "int_of_CURLMSG k = ucast k"

text \<open>
  The third argument of the variadic \<^verbatim>\<open>curl_easy_setopt\<close> and \<^verbatim>\<open>curl_easy_getinfo\<close>:
  a \<^verbatim>\<open>long\<close>, a data pointer (\<^verbatim>\<open>void *\<close>, \<^verbatim>\<open>const char *\<close>, \<^verbatim>\<open>long *\<close>) or a function
  pointer (\<^verbatim>\<open>curl_write_callback\<close>, \<^verbatim>\<open>curl_xferinfo_callback\<close>).
\<close>

datatype vararg = VaLong c_long | VaPtr addr | VaFun addr

subsection \<open>Memory\<close>

text \<open>
  Memory is an array of bytes indexed by address. An object of \<open>n\<close> bytes at \<open>p\<close> occupies
  \<open>region p n\<close>, the addresses \<open>p\<close>, \<open>p + 1\<close>, ..., \<open>p + n - 1\<close> (address arithmetic wraps at
  \<open>2 ^ 64\<close>). Objects may overlap in any way, and a store changes every object that shares
  a byte with the one stored. libcurl's \<^verbatim>\<open>CURLMsg\<close> structures live in the same memory
  as the objects the host's pointers refer to.
\<close>

type_synonym byte = "8 word"
type_synonym memory = "addr \<Rightarrow> byte"

fun region :: "addr \<Rightarrow> nat \<Rightarrow> addr set" where
  "region p 0 = {}"
| "region p (Suc n) = insert p (region (p + 1) n)"

fun store_bytes :: "addr \<Rightarrow> byte list \<Rightarrow> memory \<Rightarrow> memory" where
  "store_bytes p [] m = m"
| "store_bytes p (b # bs) m = store_bytes (p + 1) bs (m(p := b))"

fun load_bytes :: "addr \<Rightarrow> nat \<Rightarrow> memory \<Rightarrow> byte list" where
  "load_bytes p 0 m = []"
| "load_bytes p (Suc n) m = m p # load_bytes (p + 1) n m"

text \<open>A word as its bytes, least significant first, and back.\<close>

fun bytes_of :: "nat \<Rightarrow> 'a::len word \<Rightarrow> byte list" where
  "bytes_of 0 v = []"
| "bytes_of (Suc n) v = ucast v # bytes_of n (drop_bit 8 v)"

fun word_of_bytes :: "byte list \<Rightarrow> 'a::len word" where
  "word_of_bytes [] = 0"
| "word_of_bytes (b # bs) = ucast b OR push_bit 8 (word_of_bytes bs)"

text \<open>
  Reading and writing a 4-byte object (\<^verbatim>\<open>int\<close>, \<^verbatim>\<open>CURLMSG\<close>, \<^verbatim>\<open>CURLcode\<close>) and an 8-byte
  object (a pointer).
\<close>

definition read32 :: "memory \<Rightarrow> addr \<Rightarrow> 32 word" where
  "read32 m p = word_of_bytes (load_bytes p 4 m)"

definition read64 :: "memory \<Rightarrow> addr \<Rightarrow> 64 word" where
  "read64 m p = word_of_bytes (load_bytes p 8 m)"

definition write32 :: "addr \<Rightarrow> 32 word \<Rightarrow> memory \<Rightarrow> memory" where
  "write32 p v m = store_bytes p (bytes_of 4 v) m"

definition write64 :: "addr \<Rightarrow> 64 word \<Rightarrow> memory \<Rightarrow> memory" where
  "write64 p v m = store_bytes p (bytes_of 8 v) m"

text \<open>
  The bytes an output pointer of \<open>n\<close> bytes stands for: none when the pointer is \<open>NULL\<close>.
\<close>

definition out_region :: "addr \<Rightarrow> nat \<Rightarrow> addr set" where
  "out_region p n = (if p = NULL then {} else region p n)"

text \<open>
  The world: memory, and whatever else libcurl owns (\<open>lib\<close>, of a type the shim knows
  nothing about).
\<close>

record 'l world =
  mem :: memory
  lib :: 'l

text \<open>
  An access through \<open>NULL\<close> traps: the result is \<open>None\<close> and the call never returns to
  the host. Through any other pointer it succeeds; whether that pointer is valid is the
  caller's business, as in C. \<open>store_int\<close> is \<^verbatim>\<open>*p = v\<close> for an \<^verbatim>\<open>int *p\<close>, \<open>store_pointer\<close>
  for a \<^verbatim>\<open>CURL **p\<close>, \<open>store_CURLcode\<close> for a \<^verbatim>\<open>CURLcode *p\<close>.
\<close>

definition store_int :: "addr \<Rightarrow> c_int \<Rightarrow> 'l world \<Rightarrow> 'l world option" where
  "store_int p v w = (if p = NULL then None else Some (w\<lparr>mem := write32 p v (mem w)\<rparr>))"

definition store_pointer :: "addr \<Rightarrow> addr \<Rightarrow> 'l world \<Rightarrow> 'l world option" where
  "store_pointer p v w = (if p = NULL then None else Some (w\<lparr>mem := write64 p v (mem w)\<rparr>))"

definition store_CURLcode :: "addr \<Rightarrow> CURLcode \<Rightarrow> 'l world \<Rightarrow> 'l world option" where
  "store_CURLcode p v w = (if p = NULL then None else Some (w\<lparr>mem := write32 p v (mem w)\<rparr>))"

text \<open>
  \<^verbatim>\<open>struct CURLMsg\<close> of \<^verbatim>\<open>curl/curl.h\<close> is \<^verbatim>\<open>{ CURLMSG msg; CURL *easy_handle; union { void
  *whatever; CURLcode result; } data; }\<close>: \<^verbatim>\<open>msg\<close> is at offset 0, \<^verbatim>\<open>easy_handle\<close> at
  offset 8 (after four bytes of padding) and \<^verbatim>\<open>data\<close> at offset 16. The three loads of
  the shim, \<^verbatim>\<open>message->msg\<close>, \<^verbatim>\<open>message->easy_handle\<close> and \<^verbatim>\<open>message->data.result\<close>:
\<close>

definition CURLMsg_msg :: "addr \<Rightarrow> 'l world \<Rightarrow> CURLMSG option" where
  "CURLMsg_msg message w = (if message = NULL then None else Some (read32 (mem w) message))"

definition CURLMsg_easy_handle :: "addr \<Rightarrow> 'l world \<Rightarrow> addr option" where
  "CURLMsg_easy_handle message w =
     (if message = NULL then None else Some (read64 (mem w) (message + 8)))"

definition CURLMsg_data_result :: "addr \<Rightarrow> 'l world \<Rightarrow> CURLcode option" where
  "CURLMsg_data_result message w =
     (if message = NULL then None else Some (read32 (mem w) (message + 16)))"

subsection \<open>libcurl, as a parameter\<close>

record 'l curl_api =
  curl_global_init :: "c_long \<Rightarrow> 'l world \<Rightarrow> CURLcode \<times> 'l world"
  curl_easy_init :: "'l world \<Rightarrow> addr \<times> 'l world"
  curl_easy_cleanup :: "addr \<Rightarrow> 'l world \<Rightarrow> unit \<times> 'l world"
  curl_easy_reset :: "addr \<Rightarrow> 'l world \<Rightarrow> unit \<times> 'l world"
  curl_easy_setopt :: "addr \<Rightarrow> CURLoption \<Rightarrow> vararg \<Rightarrow> 'l world \<Rightarrow> CURLcode \<times> 'l world"
  curl_easy_perform :: "addr \<Rightarrow> 'l world \<Rightarrow> CURLcode \<times> 'l world"
  curl_easy_getinfo :: "addr \<Rightarrow> CURLINFO \<Rightarrow> vararg \<Rightarrow> 'l world \<Rightarrow> CURLcode \<times> 'l world"
  curl_easy_strerror :: "CURLcode \<Rightarrow> 'l world \<Rightarrow> addr \<times> 'l world"
  curl_slist_append :: "addr \<Rightarrow> addr \<Rightarrow> 'l world \<Rightarrow> addr \<times> 'l world"
  curl_slist_free_all :: "addr \<Rightarrow> 'l world \<Rightarrow> unit \<times> 'l world"
  curl_easy_impersonate :: "addr \<Rightarrow> addr \<Rightarrow> c_int \<Rightarrow> 'l world \<Rightarrow> CURLcode \<times> 'l world"
  curl_multi_init :: "'l world \<Rightarrow> addr \<times> 'l world"
  curl_multi_cleanup :: "addr \<Rightarrow> 'l world \<Rightarrow> CURLMcode \<times> 'l world"
  curl_multi_add_handle :: "addr \<Rightarrow> addr \<Rightarrow> 'l world \<Rightarrow> CURLMcode \<times> 'l world"
  curl_multi_remove_handle :: "addr \<Rightarrow> addr \<Rightarrow> 'l world \<Rightarrow> CURLMcode \<times> 'l world"
  curl_multi_perform :: "addr \<Rightarrow> addr \<Rightarrow> 'l world \<Rightarrow> CURLMcode \<times> 'l world"
  curl_multi_poll ::
    "addr \<Rightarrow> addr \<Rightarrow> c_uint \<Rightarrow> c_int \<Rightarrow> addr \<Rightarrow> 'l world \<Rightarrow> CURLMcode \<times> 'l world"
  curl_multi_info_read :: "addr \<Rightarrow> addr \<Rightarrow> 'l world \<Rightarrow> addr \<times> 'l world"
  curl_multi_wakeup :: "addr \<Rightarrow> 'l world \<Rightarrow> CURLMcode \<times> 'l world"
  curl_multi_strerror :: "CURLMcode \<Rightarrow> 'l world \<Rightarrow> addr \<times> 'l world"

subsection \<open>The exported functions\<close>

text \<open>In the order of the source file. \<open>api\<close> is the libcurl the shim is linked with.\<close>

definition bsn_curl_global_init ::
  "'l curl_api \<Rightarrow> c_long \<Rightarrow> 'l world \<Rightarrow> CURLcode \<times> 'l world" where
  "bsn_curl_global_init api flags w = curl_global_init api flags w"

definition bsn_curl_easy_init :: "'l curl_api \<Rightarrow> 'l world \<Rightarrow> addr \<times> 'l world" where
  "bsn_curl_easy_init api w = curl_easy_init api w"

definition bsn_curl_easy_cleanup ::
  "'l curl_api \<Rightarrow> addr \<Rightarrow> 'l world \<Rightarrow> unit \<times> 'l world" where
  "bsn_curl_easy_cleanup api easy_handle w = curl_easy_cleanup api easy_handle w"

definition bsn_curl_easy_reset ::
  "'l curl_api \<Rightarrow> addr \<Rightarrow> 'l world \<Rightarrow> unit \<times> 'l world" where
  "bsn_curl_easy_reset api easy_handle w = curl_easy_reset api easy_handle w"

definition bsn_curl_easy_setopt_long ::
  "'l curl_api \<Rightarrow> addr \<Rightarrow> CURLoption \<Rightarrow> c_long \<Rightarrow> 'l world \<Rightarrow> CURLcode \<times> 'l world" where
  "bsn_curl_easy_setopt_long api easy_handle option value w =
     curl_easy_setopt api easy_handle option (VaLong value) w"

definition bsn_curl_easy_setopt_ptr ::
  "'l curl_api \<Rightarrow> addr \<Rightarrow> CURLoption \<Rightarrow> addr \<Rightarrow> 'l world \<Rightarrow> CURLcode \<times> 'l world" where
  "bsn_curl_easy_setopt_ptr api easy_handle option value w =
     curl_easy_setopt api easy_handle option (VaPtr value) w"

definition bsn_curl_easy_setopt_str ::
  "'l curl_api \<Rightarrow> addr \<Rightarrow> CURLoption \<Rightarrow> addr \<Rightarrow> 'l world \<Rightarrow> CURLcode \<times> 'l world" where
  "bsn_curl_easy_setopt_str api easy_handle option value w =
     curl_easy_setopt api easy_handle option (VaPtr value) w"

definition bsn_curl_easy_setopt_write_callback ::
  "'l curl_api \<Rightarrow> addr \<Rightarrow> CURLoption \<Rightarrow> addr \<Rightarrow> 'l world \<Rightarrow> CURLcode \<times> 'l world" where
  "bsn_curl_easy_setopt_write_callback api easy_handle option callback w =
     curl_easy_setopt api easy_handle option (VaFun callback) w"

definition bsn_curl_easy_setopt_xferinfo_callback ::
  "'l curl_api \<Rightarrow> addr \<Rightarrow> CURLoption \<Rightarrow> addr \<Rightarrow> 'l world \<Rightarrow> CURLcode \<times> 'l world" where
  "bsn_curl_easy_setopt_xferinfo_callback api easy_handle option callback w =
     curl_easy_setopt api easy_handle option (VaFun callback) w"

definition bsn_curl_easy_perform ::
  "'l curl_api \<Rightarrow> addr \<Rightarrow> 'l world \<Rightarrow> CURLcode \<times> 'l world" where
  "bsn_curl_easy_perform api easy_handle w = curl_easy_perform api easy_handle w"

definition bsn_curl_easy_getinfo_long ::
  "'l curl_api \<Rightarrow> addr \<Rightarrow> CURLINFO \<Rightarrow> addr \<Rightarrow> 'l world \<Rightarrow> CURLcode \<times> 'l world" where
  "bsn_curl_easy_getinfo_long api easy_handle info value w =
     curl_easy_getinfo api easy_handle info (VaPtr value) w"

definition bsn_curl_easy_strerror ::
  "'l curl_api \<Rightarrow> CURLcode \<Rightarrow> 'l world \<Rightarrow> addr \<times> 'l world" where
  "bsn_curl_easy_strerror api code w = curl_easy_strerror api code w"

definition bsn_curl_slist_append ::
  "'l curl_api \<Rightarrow> addr \<Rightarrow> addr \<Rightarrow> 'l world \<Rightarrow> addr \<times> 'l world" where
  "bsn_curl_slist_append api list header w = curl_slist_append api list header w"

definition bsn_curl_slist_free_all ::
  "'l curl_api \<Rightarrow> addr \<Rightarrow> 'l world \<Rightarrow> unit \<times> 'l world" where
  "bsn_curl_slist_free_all api list w = curl_slist_free_all api list w"

definition bsn_curl_easy_impersonate ::
  "'l curl_api \<Rightarrow> addr \<Rightarrow> addr \<Rightarrow> c_int \<Rightarrow> 'l world \<Rightarrow> CURLcode \<times> 'l world" where
  "bsn_curl_easy_impersonate api easy_handle target default_headers w =
     curl_easy_impersonate api easy_handle target default_headers w"

definition bsn_curl_multi_init :: "'l curl_api \<Rightarrow> 'l world \<Rightarrow> addr \<times> 'l world" where
  "bsn_curl_multi_init api w = curl_multi_init api w"

definition bsn_curl_multi_cleanup ::
  "'l curl_api \<Rightarrow> addr \<Rightarrow> 'l world \<Rightarrow> CURLMcode \<times> 'l world" where
  "bsn_curl_multi_cleanup api multi_handle w = curl_multi_cleanup api multi_handle w"

definition bsn_curl_multi_add_handle ::
  "'l curl_api \<Rightarrow> addr \<Rightarrow> addr \<Rightarrow> 'l world \<Rightarrow> CURLMcode \<times> 'l world" where
  "bsn_curl_multi_add_handle api multi_handle easy_handle w =
     curl_multi_add_handle api multi_handle easy_handle w"

definition bsn_curl_multi_remove_handle ::
  "'l curl_api \<Rightarrow> addr \<Rightarrow> addr \<Rightarrow> 'l world \<Rightarrow> CURLMcode \<times> 'l world" where
  "bsn_curl_multi_remove_handle api multi_handle easy_handle w =
     curl_multi_remove_handle api multi_handle easy_handle w"

definition bsn_curl_multi_perform ::
  "'l curl_api \<Rightarrow> addr \<Rightarrow> addr \<Rightarrow> 'l world \<Rightarrow> CURLMcode \<times> 'l world" where
  "bsn_curl_multi_perform api multi_handle running_handles w =
     curl_multi_perform api multi_handle running_handles w"

definition bsn_curl_multi_poll ::
  "'l curl_api \<Rightarrow> addr \<Rightarrow> c_int \<Rightarrow> addr \<Rightarrow> 'l world \<Rightarrow> CURLMcode \<times> 'l world" where
  "bsn_curl_multi_poll api multi_handle timeout_ms numfds w =
     curl_multi_poll api multi_handle NULL 0 timeout_ms numfds w"

text \<open>
  \<^verbatim>\<open>bsn_curl_multi_info_read\<close> is the one function with a body of its own. \<open>None\<close> is a
  trap (a dereference of \<open>NULL\<close>); \<open>Some (r, w')\<close> is a return of \<open>r\<close> in the world \<open>w'\<close>.
  \<^verbatim>\<open>message->...\<close> is a load through \<open>message\<close>, \<^verbatim>\<open>*msg = ...\<close> a store through \<open>msg\<close>.
\<close>

definition bsn_curl_multi_info_read ::
  "'l curl_api \<Rightarrow> addr \<Rightarrow> addr \<Rightarrow> addr \<Rightarrow> addr \<Rightarrow> addr \<Rightarrow> 'l world
     \<Rightarrow> (c_int \<times> 'l world) option" where
  "bsn_curl_multi_info_read api multi_handle msgs_in_queue msg easy_handle result w =
     (case curl_multi_info_read api multi_handle msgs_in_queue w of
        (message, w0) \<Rightarrow>
          if message = NULL then Some (0, w0)
          else do {
            w1 \<leftarrow> (if msg \<noteq> NULL
                   then do { k \<leftarrow> CURLMsg_msg message w0;
                             store_int msg (int_of_CURLMSG k) w0 }
                   else Some w0);
            w2 \<leftarrow> (if easy_handle \<noteq> NULL
                   then do { h \<leftarrow> CURLMsg_easy_handle message w1;
                             store_pointer easy_handle h w1 }
                   else Some w1);
            w3 \<leftarrow> (if result \<noteq> NULL
                   then do { r \<leftarrow> CURLMsg_data_result message w2;
                             store_CURLcode result r w2 }
                   else Some w2);
            Some (1, w3)
          })"

text \<open>
  The memory after the three guarded stores of \<^verbatim>\<open>bsn_curl_multi_info_read\<close>, in the order
  of the source; each stored value is loaded from the message just before its store.
\<close>

definition unpacked :: "memory \<Rightarrow> addr \<Rightarrow> addr \<Rightarrow> addr \<Rightarrow> addr \<Rightarrow> memory" where
  "unpacked m0 message msg easy_handle result =
     (let m1 = (if msg \<noteq> NULL then write32 msg (read32 m0 message) m0 else m0);
          m2 = (if easy_handle \<noteq> NULL
                then write64 easy_handle (read64 m1 (message + 8)) m1 else m1)
      in if result \<noteq> NULL then write32 result (read32 m2 (message + 16)) m2 else m2)"

definition bsn_curl_multi_wakeup ::
  "'l curl_api \<Rightarrow> addr \<Rightarrow> 'l world \<Rightarrow> CURLMcode \<times> 'l world" where
  "bsn_curl_multi_wakeup api multi_handle w = curl_multi_wakeup api multi_handle w"

definition bsn_curl_multi_strerror ::
  "'l curl_api \<Rightarrow> CURLMcode \<Rightarrow> 'l world \<Rightarrow> addr \<times> 'l world" where
  "bsn_curl_multi_strerror api code w = curl_multi_strerror api code w"

subsection \<open>The export table\<close>

text \<open>
  The host reaches the shim through its exported symbols. \<open>bsn_call\<close> has one constructor
  for each of them, with the parameters of its C signature; \<open>c_value\<close> is what a call
  hands back, tagged with the C return type the source declares; \<open>invoke\<close> runs a call.
\<close>

datatype c_value =
    CodeValue CURLcode
  | MCodeValue CURLMcode
  | IntValue c_int
  | PtrValue addr
  | NoValue

datatype bsn_call =
    Bsn_curl_global_init c_long
  | Bsn_curl_easy_init
  | Bsn_curl_easy_cleanup addr
  | Bsn_curl_easy_reset addr
  | Bsn_curl_easy_setopt_long addr CURLoption c_long
  | Bsn_curl_easy_setopt_ptr addr CURLoption addr
  | Bsn_curl_easy_setopt_str addr CURLoption addr
  | Bsn_curl_easy_setopt_write_callback addr CURLoption addr
  | Bsn_curl_easy_setopt_xferinfo_callback addr CURLoption addr
  | Bsn_curl_easy_perform addr
  | Bsn_curl_easy_getinfo_long addr CURLINFO addr
  | Bsn_curl_easy_strerror CURLcode
  | Bsn_curl_slist_append addr addr
  | Bsn_curl_slist_free_all addr
  | Bsn_curl_easy_impersonate addr addr c_int
  | Bsn_curl_multi_init
  | Bsn_curl_multi_cleanup addr
  | Bsn_curl_multi_add_handle addr addr
  | Bsn_curl_multi_remove_handle addr addr
  | Bsn_curl_multi_perform addr addr
  | Bsn_curl_multi_poll addr c_int addr
  | Bsn_curl_multi_info_read addr addr addr addr addr
  | Bsn_curl_multi_wakeup addr
  | Bsn_curl_multi_strerror CURLMcode

definition returned :: "('a \<Rightarrow> c_value) \<Rightarrow> 'a \<times> 'l world \<Rightarrow> (c_value \<times> 'l world) option" where
  "returned tag rw = Some (tag (fst rw), snd rw)"

fun invoke :: "'l curl_api \<Rightarrow> bsn_call \<Rightarrow> 'l world \<Rightarrow> (c_value \<times> 'l world) option" where
  "invoke api (Bsn_curl_global_init flags) w =
     returned CodeValue (bsn_curl_global_init api flags w)"
| "invoke api Bsn_curl_easy_init w =
     returned PtrValue (bsn_curl_easy_init api w)"
| "invoke api (Bsn_curl_easy_cleanup easy_handle) w =
     returned (\<lambda>_. NoValue) (bsn_curl_easy_cleanup api easy_handle w)"
| "invoke api (Bsn_curl_easy_reset easy_handle) w =
     returned (\<lambda>_. NoValue) (bsn_curl_easy_reset api easy_handle w)"
| "invoke api (Bsn_curl_easy_setopt_long easy_handle option value) w =
     returned CodeValue (bsn_curl_easy_setopt_long api easy_handle option value w)"
| "invoke api (Bsn_curl_easy_setopt_ptr easy_handle option value) w =
     returned CodeValue (bsn_curl_easy_setopt_ptr api easy_handle option value w)"
| "invoke api (Bsn_curl_easy_setopt_str easy_handle option value) w =
     returned CodeValue (bsn_curl_easy_setopt_str api easy_handle option value w)"
| "invoke api (Bsn_curl_easy_setopt_write_callback easy_handle option callback) w =
     returned CodeValue (bsn_curl_easy_setopt_write_callback api easy_handle option callback w)"
| "invoke api (Bsn_curl_easy_setopt_xferinfo_callback easy_handle option callback) w =
     returned CodeValue
       (bsn_curl_easy_setopt_xferinfo_callback api easy_handle option callback w)"
| "invoke api (Bsn_curl_easy_perform easy_handle) w =
     returned CodeValue (bsn_curl_easy_perform api easy_handle w)"
| "invoke api (Bsn_curl_easy_getinfo_long easy_handle info value) w =
     returned CodeValue (bsn_curl_easy_getinfo_long api easy_handle info value w)"
| "invoke api (Bsn_curl_easy_strerror code) w =
     returned PtrValue (bsn_curl_easy_strerror api code w)"
| "invoke api (Bsn_curl_slist_append list header) w =
     returned PtrValue (bsn_curl_slist_append api list header w)"
| "invoke api (Bsn_curl_slist_free_all list) w =
     returned (\<lambda>_. NoValue) (bsn_curl_slist_free_all api list w)"
| "invoke api (Bsn_curl_easy_impersonate easy_handle target default_headers) w =
     returned CodeValue (bsn_curl_easy_impersonate api easy_handle target default_headers w)"
| "invoke api Bsn_curl_multi_init w =
     returned PtrValue (bsn_curl_multi_init api w)"
| "invoke api (Bsn_curl_multi_cleanup multi_handle) w =
     returned MCodeValue (bsn_curl_multi_cleanup api multi_handle w)"
| "invoke api (Bsn_curl_multi_add_handle multi_handle easy_handle) w =
     returned MCodeValue (bsn_curl_multi_add_handle api multi_handle easy_handle w)"
| "invoke api (Bsn_curl_multi_remove_handle multi_handle easy_handle) w =
     returned MCodeValue (bsn_curl_multi_remove_handle api multi_handle easy_handle w)"
| "invoke api (Bsn_curl_multi_perform multi_handle running_handles) w =
     returned MCodeValue (bsn_curl_multi_perform api multi_handle running_handles w)"
| "invoke api (Bsn_curl_multi_poll multi_handle timeout_ms numfds) w =
     returned MCodeValue (bsn_curl_multi_poll api multi_handle timeout_ms numfds w)"
| "invoke api (Bsn_curl_multi_info_read multi_handle msgs_in_queue msg easy_handle result) w =
     Option.bind
       (bsn_curl_multi_info_read api multi_handle msgs_in_queue msg easy_handle result w)
       (returned IntValue)"
| "invoke api (Bsn_curl_multi_wakeup multi_handle) w =
     returned MCodeValue (bsn_curl_multi_wakeup api multi_handle w)"
| "invoke api (Bsn_curl_multi_strerror code) w =
     returned PtrValue (bsn_curl_multi_strerror api code w)"

text \<open>
  A status value is a \<^verbatim>\<open>CURLcode\<close>, a \<^verbatim>\<open>CURLMcode\<close>, or an \<^verbatim>\<open>int\<close> that is 0 or 1.
  \<open>status_entry\<close> holds of the entry points whose declared return type is
  \<^verbatim>\<open>CURLcode\<close> or \<^verbatim>\<open>CURLMcode\<close>, and of \<^verbatim>\<open>bsn_curl_multi_info_read\<close>.
\<close>

fun is_status :: "c_value \<Rightarrow> bool" where
  "is_status (CodeValue c) = True"
| "is_status (MCodeValue c) = True"
| "is_status (IntValue i) = (i = 0 \<or> i = 1)"
| "is_status (PtrValue p) = False"
| "is_status NoValue = False"

fun status_entry :: "bsn_call \<Rightarrow> bool" where
  "status_entry Bsn_curl_easy_init = False"
| "status_entry (Bsn_curl_easy_cleanup easy_handle) = False"
| "status_entry (Bsn_curl_easy_reset easy_handle) = False"
| "status_entry (Bsn_curl_easy_strerror code) = False"
| "status_entry (Bsn_curl_slist_append list header) = False"
| "status_entry (Bsn_curl_slist_free_all list) = False"
| "status_entry Bsn_curl_multi_init = False"
| "status_entry (Bsn_curl_multi_strerror code) = False"
| "status_entry c = True"

subsection \<open>A stand-in for libcurl\<close>

text \<open>
  To run the shim on concrete inputs, a small libcurl: its own state is the list of
  the addresses of the pending \<^verbatim>\<open>CURLMsg\<close> structures. \<^verbatim>\<open>curl_multi_info_read\<close> takes
  the first of them and writes the number of those left to \<^verbatim>\<open>*msgs_in_queue\<close>;
  \<^verbatim>\<open>curl_easy_perform\<close> fails with code 7; \<^verbatim>\<open>curl_multi_poll\<close> returns 0 when it is
  given no extra descriptors and 1 otherwise; the rest return a fixed value.
\<close>

definition fake_curl :: "addr list curl_api" where
  "fake_curl = \<lparr>
     curl_global_init = (\<lambda>flags w. (0, w)),
     curl_easy_init = (\<lambda>w. (16, w)),
     curl_easy_cleanup = (\<lambda>easy w. ((), w)),
     curl_easy_reset = (\<lambda>easy w. ((), w)),
     curl_easy_setopt = (\<lambda>easy option arg w. (0, w)),
     curl_easy_perform = (\<lambda>easy w. (7, w)),
     curl_easy_getinfo = (\<lambda>easy info arg w. (0, w)),
     curl_easy_strerror = (\<lambda>code w. (48, w)),
     curl_slist_append = (\<lambda>list header w. (header, w)),
     curl_slist_free_all = (\<lambda>list w. ((), w)),
     curl_easy_impersonate = (\<lambda>easy target default_headers w. (0, w)),
     curl_multi_init = (\<lambda>w. (32, w)),
     curl_multi_cleanup = (\<lambda>multi w. (0, w)),
     curl_multi_add_handle = (\<lambda>multi easy w. (0, w)),
     curl_multi_remove_handle = (\<lambda>multi easy w. (0, w)),
     curl_multi_perform = (\<lambda>multi running w. (0, w)),
     curl_multi_poll = (\<lambda>multi fds nfds timeout numfds w.
        (if fds = NULL \<and> nfds = 0 then 0 else 1, w)),
     curl_multi_info_read = (\<lambda>multi q w.
        case lib w of
          [] \<Rightarrow> (NULL, w\<lparr>mem := write32 q 0 (mem w)\<rparr>)
        | p # ps \<Rightarrow> (p, w\<lparr>mem := write32 q (of_nat (length ps)) (mem w), lib := ps\<rparr>)),
     curl_multi_wakeup = (\<lambda>multi w. (0, w)),
     curl_multi_strerror = (\<lambda>code w. (48, w))
   \<rparr>"

text \<open>
  A world for it. Memory is zero except for one \<^verbatim>\<open>CURLMsg\<close> at address 64, which says
  that a transfer of easy handle 16 ended with result code 28; the kind of the message
  is \<open>k\<close>. That message is pending. In \<open>fake_world\<close> the kind is 1, which is
  \<^verbatim>\<open>CURLMSG_DONE\<close>.
\<close>

definition fake_memory :: "CURLMSG \<Rightarrow> memory" where
  "fake_memory k = write32 80 28 (write64 72 16 (write32 64 k (\<lambda>a. 0)))"

definition fake_world_kind :: "CURLMSG \<Rightarrow> addr list world" where
  "fake_world_kind k = \<lparr>mem = fake_memory k, lib = [64]\<rparr>"

definition fake_world :: "addr list world" where
  "fake_world = fake_world_kind 1"

section \<open>The components the specification describes\<close>

text \<open>
  The specification also describes an Identity Profile Registry and a Multi-Transfer
  Scheduler. Neither has code in the repository's sources: the shim only forwards to
  libcurl. The definitions of this section follow the words of the specification.
\<close>

subsection \<open>Identity Profile Registry\<close>

text \<open>
  Modelled from the spec: the \<open>IdentityProfile\<close> of the data model (section 3), "name:
  string, tlsCipherSuites: ordered sequence of cipher IDs, tlsExtensionOrder: ordered
  sequence of extension IDs, alpnProtocols: ordered sequence of strings, defaultHeaders:
  ordered sequence of (name, value)". No source file declares it.
\<close>

record IdentityProfile =
  name :: string
  tlsCipherSuites :: "nat list"
  tlsExtensionOrder :: "nat list"
  alpnProtocols :: "string list"
  defaultHeaders :: "(string \<times> string) list"

text \<open>
  Modelled from the spec: the two registry errors of the error taxonomy (section 7);
  no source file declares them.
\<close>

datatype registry_error = DuplicateProfile | UnknownProfile

text \<open>
  Modelled from the spec: the registry, "a mapping from profile name to" a profile
  (section 2); no source file implements it.
\<close>

type_synonym registry = "string \<rightharpoonup> IdentityProfile"

text \<open>
  Modelled from the spec: \<open>register\<close>, missing from the sources. "\<open>register(profile)\<close>
  fails with \<open>DuplicateProfile\<close> if the name exists" (section 4.1); otherwise the profile
  is in the registry under its name.
\<close>

definition register :: "IdentityProfile \<Rightarrow> registry \<Rightarrow> registry_error + registry" where
  "register profile reg =
     (case reg (name profile) of
        Some _ \<Rightarrow> Inl DuplicateProfile
      | None \<Rightarrow> Inr (reg(name profile \<mapsto> profile)))"

text \<open>
  Modelled from the spec: \<open>lookup\<close>, missing from the sources. "\<open>lookup(name)\<close> returns
  the profile or fails with \<open>UnknownProfile\<close>" (section 4.1).
\<close>

definition lookup :: "string \<Rightarrow> registry \<Rightarrow> registry_error + IdentityProfile" where
  "lookup n reg = (case reg n of None \<Rightarrow> Inl UnknownProfile | Some profile \<Rightarrow> Inr profile)"

text \<open>
  Modelled from the spec: the population of the registry at startup (section 4.1), a
  sequence of \<open>register\<close> calls; a call that fails leaves the registry as it was.
\<close>

fun register_all :: "IdentityProfile list \<Rightarrow> registry \<Rightarrow> registry" where
  "register_all [] reg = reg"
| "register_all (profile # profiles) reg =
     (case register profile reg of
        Inl _ \<Rightarrow> register_all profiles reg
      | Inr reg' \<Rightarrow> register_all profiles reg')"

text \<open>Two profiles of the same name, for concrete runs.\<close>

definition chrome_120 :: IdentityProfile where
  "chrome_120 = \<lparr>name = ''chrome-120'', tlsCipherSuites = [4865, 4866, 4867],
     tlsExtensionOrder = [0, 23, 65281], alpnProtocols = [''h2'', ''http/1.1''],
     defaultHeaders = [(''User-Agent'', ''Chrome/120'')]\<rparr>"

definition chrome_120_again :: IdentityProfile where
  "chrome_120_again = \<lparr>name = ''chrome-120'', tlsCipherSuites = [4867],
     tlsExtensionOrder = [], alpnProtocols = [], defaultHeaders = []\<rparr>"

subsection \<open>Multi-Transfer Scheduler\<close>

text \<open>
  Modelled from the spec: the state of a handle in the scheduler, "\<open>Idle \<rightarrow> Registered \<rightarrow>
  InFlight \<rightarrow> {Completed, Failed}\<close>" (section 4.4); no source file declares it.
\<close>

datatype handle_state = Idle | Registered | InFlight | Completed | Failed

text \<open>
  Modelled from the spec: the scheduler error of the error taxonomy (section 7); no
  source file declares it.
\<close>

datatype scheduler_error = AlreadyRegistered

text \<open>
  Modelled from the spec: the \<open>CompletionRecord\<close> of the data model (section 3),
  "handleId, resultCode, errorDetail or none"; no source file declares it.
\<close>

record CompletionRecord =
  handleId :: nat
  resultCode :: nat
  errorDetail :: "string option"

text \<open>
  Modelled from the spec: the scheduler's state, missing from the sources. The
  \<open>SchedulerSet\<close> is "keyed by handle id" (section 3); \<open>completed\<close> holds the records of
  the handles "that reached a terminal state since the last drain, in completion order"
  (section 4.4).
\<close>

record scheduler =
  schedulerSet :: "nat \<rightharpoonup> handle_state"
  completed :: "CompletionRecord list"

text \<open>Modelled from the spec: a scheduler that tracks no handle; missing from the sources.\<close>

definition empty_scheduler :: scheduler where
  "empty_scheduler = \<lparr>schedulerSet = Map.empty, completed = []\<rparr>"

text \<open>
  Modelled from the spec: \<open>addHandle\<close>, missing from the sources. It "fails with
  \<open>AlreadyRegistered\<close> if handle id is already tracked" (section 4.4); otherwise the
  handle is \<open>Registered\<close>.
\<close>

definition addHandle :: "nat \<Rightarrow> scheduler \<Rightarrow> scheduler_error + scheduler" where
  "addHandle h s =
     (case schedulerSet s h of
        Some _ \<Rightarrow> Inl AlreadyRegistered
      | None \<Rightarrow> Inr (s\<lparr>schedulerSet := (schedulerSet s)(h \<mapsto> Registered)\<rparr>))"

text \<open>
  Modelled from the spec: a handle that can still complete, one that is \<open>Registered\<close> or
  \<open>InFlight\<close> (section 4.4 names these two states as the ones before completion). The
  specification does not say which call moves a handle from the first to the second,
  and nothing here depends on it.
\<close>

definition live :: "scheduler \<Rightarrow> nat \<Rightarrow> bool" where
  "live s h = (schedulerSet s h = Some Registered \<or> schedulerSet s h = Some InFlight)"

text \<open>
  Modelled from the spec: the terminal state a record stands for, \<open>Failed\<close> when it
  carries an error detail and \<open>Completed\<close> when it carries none (sections 3 and 4.4).
\<close>

definition terminal_state :: "CompletionRecord \<Rightarrow> handle_state" where
  "terminal_state r = (case errorDetail r of None \<Rightarrow> Completed | Some _ \<Rightarrow> Failed)"

text \<open>
  Modelled from the spec: the completion of one handle, missing from the sources. A live
  handle reaches its terminal state and its record is put after those already there; a
  record for a handle that is not live is ignored ("produced once per handle per run",
  section 3).
\<close>

definition complete :: "CompletionRecord \<Rightarrow> scheduler \<Rightarrow> scheduler" where
  "complete r s =
     (if live s (handleId r)
      then s\<lparr>schedulerSet := (schedulerSet s)(handleId r \<mapsto> terminal_state r),
             completed := completed s @ [r]\<rparr>
      else s)"

text \<open>
  Modelled from the spec: the readiness detection of one \<open>pumpOnce\<close> or \<open>wait\<close> call,
  missing from the sources. \<open>ready\<close> is what the transport reports in that call: the
  records of the handles it found finished, in no particular order. They are taken
  "by ascending handle id" (section 4.4).
\<close>

definition detect :: "CompletionRecord list \<Rightarrow> scheduler \<Rightarrow> scheduler" where
  "detect ready s = fold complete (sort_key handleId ready) s"

text \<open>
  Modelled from the spec: \<open>pumpOnce\<close>, missing from the sources: "one non-blocking round
  of I/O across all tracked handles", returning the "count of handles whose state
  changed" (section 4.4), which here are the handles completed in the round.
\<close>

definition pumpOnce :: "CompletionRecord list \<Rightarrow> scheduler \<Rightarrow> nat \<times> scheduler" where
  "pumpOnce ready s =
     (length (completed (detect ready s)) - length (completed s), detect ready s)"

text \<open>
  Modelled from the spec: \<open>wait\<close>, missing from the sources. It returns when "at least
  one handle's readiness changes or the timeout elapses" (section 4.4); time is not
  modelled, and a timeout is an empty report.
\<close>

definition wait :: "nat \<Rightarrow> CompletionRecord list \<Rightarrow> scheduler \<Rightarrow> scheduler" where
  "wait timeoutMs ready s = detect ready s"

text \<open>
  Modelled from the spec: \<open>drainCompletions\<close>, missing from the sources. It "returns and
  removes all handles that reached a terminal state since the last drain, in completion
  order" (section 4.4).
\<close>

definition drainCompletions :: "scheduler \<Rightarrow> CompletionRecord list \<times> scheduler" where
  "drainCompletions s =
     (completed s,
      s\<lparr>schedulerSet :=
           (\<lambda>h. if h \<in> set (map handleId (completed s)) then None else schedulerSet s h),
        completed := []\<rparr>)"

text \<open>
  Modelled from the spec: a caller of the scheduler (section 6 lists the operations
  exposed to the host). \<open>perform\<close> does one call on a scheduler paired with all the
  records the caller's drain loop has received so far; a failed \<open>addHandle\<close> changes
  nothing. \<open>run\<close> does a sequence of calls from the empty scheduler, and \<open>added\<close> lists
  the handle ids a sequence of calls submits.
\<close>

datatype scheduler_call =
    AddHandle nat
  | PumpOnce "CompletionRecord list"
  | Wait nat "CompletionRecord list"
  | DrainCompletions

fun perform ::
  "scheduler_call \<Rightarrow> scheduler \<times> CompletionRecord list \<Rightarrow> scheduler \<times> CompletionRecord list" where
  "perform (AddHandle h) (s, drained) =
     (case addHandle h s of Inl _ \<Rightarrow> (s, drained) | Inr s' \<Rightarrow> (s', drained))"
| "perform (PumpOnce ready) (s, drained) = (snd (pumpOnce ready s), drained)"
| "perform (Wait timeoutMs ready) (s, drained) = (wait timeoutMs ready s, drained)"
| "perform DrainCompletions (s, drained) =
     (snd (drainCompletions s), drained @ fst (drainCompletions s))"

definition run :: "scheduler_call list \<Rightarrow> scheduler \<times> CompletionRecord list" where
  "run calls = fold perform calls (empty_scheduler, [])"

fun added :: "scheduler_call list \<Rightarrow> nat list" where
  "added [] = []"
| "added (AddHandle h # calls) = h # added calls"
| "added (c # calls) = added calls"

text \<open>
  The invariant of a run whose submitted handle ids are in \<open>A\<close>: no handle id occurs twice
  among the records drained or waiting to be drained, only submitted handles are tracked
  or have a record, and a live handle has no record yet.
\<close>

definition sched_inv :: "nat set \<Rightarrow> scheduler \<times> CompletionRecord list \<Rightarrow> bool" where
  "sched_inv A st =
     (distinct (map handleId (snd st @ completed (fst st))) \<and>
      dom (schedulerSet (fst st)) \<subseteq> A \<and>
      set (map handleId (snd st @ completed (fst st))) \<subseteq> A \<and>
      (\<forall>h. live (fst st) h \<longrightarrow> h \<notin> set (map handleId (snd st @ completed (fst st)))))"

text \<open>
  The scenario of the specification (section 8): three handles are submitted, the
  transport reports handles 3 and 2 in the first \<open>wait\<close>, and handle 1 (and handle 3
  once more) in a later \<open>pumpOnce\<close>.
\<close>

definition done_record :: "nat \<Rightarrow> CompletionRecord" where
  "done_record h = \<lparr>handleId = h, resultCode = 0, errorDetail = None\<rparr>"

definition three_handles :: scheduler where
  "three_handles = fst (run [AddHandle 1, AddHandle 2, AddHandle 3])"

definition scenario :: "scheduler_call list" where
  "scenario = [AddHandle 1, AddHandle 2, AddHandle 3,
     Wait 100 [done_record 3, done_record 2], DrainCompletions,
     PumpOnce [done_record 1, done_record 3], DrainCompletions]"

section \<open>Theorems about the shim\<close>

subsection \<open>Bytes and regions\<close>

lemma byte_step:
  fixes v :: "'a::len word"
  shows "ucast (ucast v :: byte) OR push_bit 8 (take_bit m (drop_bit 8 v)) = take_bit (8 + m) v"
proof (rule bit_word_eqI)
  fix k
  assume len: "k < LENGTH('a)"
  show "bit (ucast (ucast v :: byte) OR push_bit 8 (take_bit m (drop_bit 8 v))) k
      \<longleftrightarrow> bit (take_bit (8 + m) v) k"
  proof (cases "k < 8")
    case True
    with len show ?thesis by (auto simp add: bit_simps)
  next
    case False
    then have "8 + (k - 8) = k" by simp
    with False len show ?thesis by (auto simp add: bit_simps)
  qed
qed

lemma word_of_bytes_of:
  fixes v :: "'a::len word"
  shows "word_of_bytes (bytes_of n v) = take_bit (8 * n) v"
proof (induction n arbitrary: v)
  case 0
  then show ?case by simp
next
  case (Suc n)
  then show ?case by (simp add: byte_step)
qed

lemma length_bytes_of: "length (bytes_of n v) = n"
  by (induction n arbitrary: v) simp_all

lemma region_iff: "a \<in> region p n \<longleftrightarrow> (\<exists>i < n. a = p + of_nat i)"
proof (induction n arbitrary: p)
  case 0
  then show ?case by simp
next
  case (Suc n)
  show ?case
  proof
    assume "a \<in> region p (Suc n)"
    then consider "a = p" | "a \<in> region (p + 1) n"
      by auto
    then show "\<exists>i < Suc n. a = p + of_nat i"
    proof cases
      case 1
      then have "a = p + of_nat 0" by simp
      then show ?thesis by blast
    next
      case 2
      with Suc.IH obtain i where "i < n" and "a = p + 1 + of_nat i"
        by blast
      then have "Suc i < Suc n" and "a = p + of_nat (Suc i)"
        by simp_all
      then show ?thesis by blast
    qed
  next
    assume "\<exists>i < Suc n. a = p + of_nat i"
    then obtain i where i: "i < Suc n" and a: "a = p + of_nat i"
      by blast
    show "a \<in> region p (Suc n)"
    proof (cases i)
      case 0
      with a show ?thesis by simp
    next
      case (Suc j)
      with i a have "j < n" and "a = p + 1 + of_nat j"
        by simp_all
      with Suc.IH have "a \<in> region (p + 1) n"
        by blast
      then show ?thesis by simp
    qed
  qed
qed

lemma region_no_wrap:
  assumes "n < 2 ^ 64"
  shows "p \<notin> region (p + 1) n"
proof
  assume "p \<in> region (p + 1) n"
  then obtain i where i: "i < n" and "p = p + 1 + of_nat i"
    by (auto simp add: region_iff)
  then have "(of_nat (Suc i) :: addr) = 0"
    by (simp add: add.assoc)
  then have "2 ^ 64 dvd Suc i"
    by (simp only: word_of_nat_eq_0_iff) simp
  then have "(2 :: nat) ^ 64 \<le> Suc i"
    by (rule dvd_imp_le) simp
  with i assms show False
    by simp
qed

lemma region_4: "region p 4 = {p, p + 1, p + 2, p + 3}"
proof -
  have "(4 :: nat) = Suc (Suc (Suc (Suc 0)))"
    by simp
  then have "region p 4 = region p (Suc (Suc (Suc (Suc 0))))"
    by (rule arg_cong)
  also have "\<dots> = {p, p + 1, p + 1 + 1, p + 1 + 1 + 1}"
    by simp
  also have "\<dots> = {p, p + 1, p + 2, p + 3}"
    by (simp add: add.assoc)
  finally show ?thesis .
qed

lemma region_8: "region p 8 = {p, p + 1, p + 2, p + 3, p + 4, p + 5, p + 6, p + 7}"
proof -
  have "(8 :: nat) = Suc (Suc (Suc (Suc (Suc (Suc (Suc (Suc 0)))))))"
    by simp
  then have "region p 8 = region p (Suc (Suc (Suc (Suc (Suc (Suc (Suc (Suc 0))))))))"
    by (rule arg_cong)
  also have "\<dots> = {p, p + 1, p + 1 + 1, p + 1 + 1 + 1, p + 1 + 1 + 1 + 1,
      p + 1 + 1 + 1 + 1 + 1, p + 1 + 1 + 1 + 1 + 1 + 1, p + 1 + 1 + 1 + 1 + 1 + 1 + 1}"
    by simp
  also have "\<dots> = {p, p + 1, p + 2, p + 3, p + 4, p + 5, p + 6, p + 7}"
    by (simp add: add.assoc)
  finally show ?thesis .
qed

lemma store_bytes_frame:
  "a \<notin> region p (length bs) \<Longrightarrow> store_bytes p bs m a = m a"
  by (induction bs arbitrary: p m) auto

lemma load_bytes_cong:
  "\<forall>a \<in> region p n. m a = m' a \<Longrightarrow> load_bytes p n m = load_bytes p n m'"
  by (induction n arbitrary: p) auto

lemma load_bytes_store_other:
  assumes "region p n \<inter> region q (length bs) = {}"
  shows "load_bytes p n (store_bytes q bs m) = load_bytes p n m"
proof (rule load_bytes_cong, rule ballI)
  fix a
  assume "a \<in> region p n"
  with assms have "a \<notin> region q (length bs)"
    by blast
  then show "store_bytes q bs m a = m a"
    by (rule store_bytes_frame)
qed

lemma load_bytes_store_same:
  assumes "length bs < 2 ^ 64"
  shows "load_bytes p (length bs) (store_bytes p bs m) = bs"
  using assms
proof (induction bs arbitrary: p m)
  case Nil
  then show ?case by simp
next
  case (Cons b bs)
  then have n: "length bs < 2 ^ 64"
    by simp
  have "p \<notin> region (p + 1) (length bs)"
    using n by (rule region_no_wrap)
  then have "store_bytes (p + 1) bs (m(p := b)) p = b"
    by (simp add: store_bytes_frame)
  with Cons.IH [OF n] show ?case
    by simp
qed

subsection \<open>Reading after writing\<close>

lemma read32_write32_same: "read32 (write32 p v m) p = v"
proof -
  have "load_bytes p (length (bytes_of 4 v)) (store_bytes p (bytes_of 4 v) m) = bytes_of 4 v"
    by (rule load_bytes_store_same) (simp add: length_bytes_of)
  then show ?thesis
    by (simp add: read32_def write32_def length_bytes_of word_of_bytes_of take_bit_word_eq_self)
qed

lemma read64_write64_same: "read64 (write64 p v m) p = v"
proof -
  have "load_bytes p (length (bytes_of 8 v)) (store_bytes p (bytes_of 8 v) m) = bytes_of 8 v"
    by (rule load_bytes_store_same) (simp add: length_bytes_of)
  then show ?thesis
    by (simp add: read64_def write64_def length_bytes_of word_of_bytes_of take_bit_word_eq_self)
qed

lemma read32_write32_other:
  "region p 4 \<inter> region q 4 = {} \<Longrightarrow> read32 (write32 q v m) p = read32 m p"
  by (simp add: read32_def write32_def load_bytes_store_other length_bytes_of)

lemma read32_write64_other:
  "region p 4 \<inter> region q 8 = {} \<Longrightarrow> read32 (write64 q v m) p = read32 m p"
  by (simp add: read32_def write64_def load_bytes_store_other length_bytes_of)

lemma read64_write32_other:
  "region p 8 \<inter> region q 4 = {} \<Longrightarrow> read64 (write32 q v m) p = read64 m p"
  by (simp add: read64_def write32_def load_bytes_store_other length_bytes_of)

lemma read64_write64_other:
  "region p 8 \<inter> region q 8 = {} \<Longrightarrow> read64 (write64 q v m) p = read64 m p"
  by (simp add: read64_def write64_def load_bytes_store_other length_bytes_of)

lemma write32_frame: "a \<notin> region p 4 \<Longrightarrow> write32 p v m a = m a"
  by (simp add: write32_def store_bytes_frame length_bytes_of)

lemma write64_frame: "a \<notin> region p 8 \<Longrightarrow> write64 p v m a = m a"
  by (simp add: write64_def store_bytes_frame length_bytes_of)

lemma read32_zero: "read32 (\<lambda>a. 0) p = 0"
proof -
  have "load_bytes p (Suc (Suc (Suc (Suc 0)))) (\<lambda>a. 0) = [0, 0, 0, 0]"
    by simp
  moreover have "(4 :: nat) = Suc (Suc (Suc (Suc 0)))"
    by simp
  ultimately have "load_bytes p 4 (\<lambda>a. 0) = [0, 0, 0, 0]"
    by (simp only:)
  then show ?thesis
    by (simp add: read32_def)
qed

subsection \<open>The one function with a body\<close>

text \<open>
  \<^verbatim>\<open>bsn_curl_multi_info_read\<close> without the monad: it never traps, and the world it returns
  is the one libcurl left, with the three guarded stores applied in the order of the source.
\<close>

lemma info_read_closed:
  "bsn_curl_multi_info_read api multi_handle msgs_in_queue msg easy_handle result w =
     (case curl_multi_info_read api multi_handle msgs_in_queue w of
        (message, w0) \<Rightarrow>
          if message = NULL then Some (0, w0)
          else Some (1, w0\<lparr>mem := unpacked (mem w0) message msg easy_handle result\<rparr>))"
  by (simp add: bsn_curl_multi_info_read_def store_int_def store_pointer_def
        store_CURLcode_def CURLMsg_msg_def CURLMsg_easy_handle_def CURLMsg_data_result_def
        int_of_CURLMSG_def unpacked_def Let_def split: prod.splits)

lemma unpacked_frame:
  assumes "a \<notin> out_region msg 4 \<union> out_region easy_handle 8 \<union> out_region result 4"
  shows "unpacked m0 message msg easy_handle result a = m0 a"
  using assms
  by (simp add: unpacked_def Let_def out_region_def write32_frame write64_frame
        split: if_splits)

lemma unpacked_all_NULL: "unpacked m0 message NULL NULL NULL = m0"
  by (simp add: unpacked_def)

lemma unpacked_result:
  assumes "result \<noteq> NULL"
    and "region (message + 16) 4 \<inter> out_region msg 4 = {}"
    and "region (message + 16) 4 \<inter> out_region easy_handle 8 = {}"
  shows "read32 (unpacked m0 message msg easy_handle result) result = read32 m0 (message + 16)"
  using assms
  by (simp add: unpacked_def Let_def out_region_def read32_write32_same
        read32_write32_other read32_write64_other split: if_splits)

lemma unpacked_easy_handle:
  assumes "easy_handle \<noteq> NULL"
    and "region (message + 8) 8 \<inter> out_region msg 4 = {}"
    and "region easy_handle 8 \<inter> out_region result 4 = {}"
  shows "read64 (unpacked m0 message msg easy_handle result) easy_handle
     = read64 m0 (message + 8)"
  using assms
  by (simp add: unpacked_def Let_def out_region_def read64_write64_same
        read64_write32_other split: if_splits)

lemma unpacked_msg:
  assumes "msg \<noteq> NULL"
    and "region msg 4 \<inter> out_region easy_handle 8 = {}"
    and "region msg 4 \<inter> out_region result 4 = {}"
  shows "read32 (unpacked m0 message msg easy_handle result) msg = read32 m0 message"
  using assms
  by (simp add: unpacked_def Let_def out_region_def read32_write32_same
        read32_write32_other read32_write64_other split: if_splits)


subsection \<open>The stand-in at work\<close>

lemma fake_info_read:
  "curl_multi_info_read fake_curl 32 8 (fake_world_kind k)
     = (64, \<lparr>mem = write32 8 0 (fake_memory k), lib = []\<rparr>)"
  by (simp add: fake_curl_def fake_world_kind_def)

lemma fake_no_message:
  "curl_multi_info_read fake_curl 32 8 \<lparr>mem = fake_memory k, lib = []\<rparr>
     = (NULL, \<lparr>mem = write32 8 0 (fake_memory k), lib = []\<rparr>)"
  by (simp add: fake_curl_def)

lemma fake_message:
  "read32 (write32 8 0 (fake_memory k)) 64 = k"
  "read64 (write32 8 0 (fake_memory k)) (64 + 8) = 16"
  "read32 (write32 8 0 (fake_memory k)) (64 + 16) = 28"
  by (simp_all add: fake_memory_def read32_write32_same read64_write64_same
        read32_write32_other read32_write64_other read64_write32_other region_4 region_8)

lemma fake_elsewhere:
  "read32 (write32 8 0 (fake_memory k)) 112 = 0"
  "write32 8 0 (fake_memory k) 120 = 0"
  by (simp_all add: fake_memory_def read32_zero write32_frame write64_frame
        read32_write32_other read32_write64_other region_4 region_8)

lemma fake_unpacked:
  "unpacked (write32 8 0 (fake_memory k)) 64 96 104 112
     = write32 112 28 (write64 104 16 (write32 96 k (write32 8 0 (fake_memory k))))"
  using fake_message [of k]
  by (simp add: unpacked_def NULL_def Let_def read32_write32_other read64_write32_other
        read32_write64_other region_4 region_8)


text \<open>
  The stores of the shim do interfere when the objects overlap. With \<open>msg\<close> \<open>NULL\<close>,
  \<open>easy_handle\<close> = 104 and \<open>result\<close> = 108 the store of the result code 28 replaces the
  upper half of the easy handle 16 stored just before.
\<close>

lemma bytes_of_4:
  "bytes_of 4 v = [ucast v, ucast (drop_bit 8 v), ucast (drop_bit 16 v), ucast (drop_bit 24 v)]"
proof -
  have "bytes_of (Suc (Suc (Suc (Suc 0)))) v
      = [ucast v, ucast (drop_bit 8 v), ucast (drop_bit 8 (drop_bit 8 v)),
         ucast (drop_bit 8 (drop_bit 8 (drop_bit 8 v)))]"
    by simp
  moreover have "(4 :: nat) = Suc (Suc (Suc (Suc 0)))"
    by simp
  ultimately show ?thesis
    by (simp only: drop_bit_drop_bit) simp
qed

lemma load_bytes_8:
  "load_bytes p 8 m = [m p, m (p + 1), m (p + 2), m (p + 3), m (p + 4), m (p + 5), m (p + 6), m (p + 7)]"
proof -
  have "load_bytes p (Suc (Suc (Suc (Suc (Suc (Suc (Suc (Suc 0)))))))) m
      = [m p, m (p + 1), m (p + 1 + 1), m (p + 1 + 1 + 1), m (p + 1 + 1 + 1 + 1),
         m (p + 1 + 1 + 1 + 1 + 1), m (p + 1 + 1 + 1 + 1 + 1 + 1),
         m (p + 1 + 1 + 1 + 1 + 1 + 1 + 1)]"
    by simp
  moreover have "(8 :: nat) = Suc (Suc (Suc (Suc (Suc (Suc (Suc (Suc 0)))))))"
    by simp
  ultimately have "load_bytes p 8 m
      = [m p, m (p + 1), m (p + 1 + 1), m (p + 1 + 1 + 1), m (p + 1 + 1 + 1 + 1),
         m (p + 1 + 1 + 1 + 1 + 1), m (p + 1 + 1 + 1 + 1 + 1 + 1),
         m (p + 1 + 1 + 1 + 1 + 1 + 1 + 1)]"
    by (simp only:)
  then show ?thesis
    by (simp add: add.assoc)
qed

lemma bytes_of_8:
  "bytes_of 8 v = [ucast v, ucast (drop_bit 8 v), ucast (drop_bit 16 v), ucast (drop_bit 24 v),
     ucast (drop_bit 32 v), ucast (drop_bit 40 v), ucast (drop_bit 48 v), ucast (drop_bit 56 v)]"
proof -
  have "(8 :: nat) = Suc (Suc (Suc (Suc (Suc (Suc (Suc (Suc 0)))))))"
    by simp
  then have "bytes_of 8 v = bytes_of (Suc (Suc (Suc (Suc (Suc (Suc (Suc (Suc 0)))))))) v"
    by (rule arg_cong)
  also have "\<dots> = [ucast v, ucast (drop_bit 8 v), ucast (drop_bit 16 v),
     ucast (drop_bit 24 v), ucast (drop_bit 32 v), ucast (drop_bit 40 v),
     ucast (drop_bit 48 v), ucast (drop_bit 56 v)]"
    by (simp add: drop_bit_drop_bit)
  finally show ?thesis .
qed

lemma overlapping_stores:
  "read64 (write32 108 28 (write64 104 16 m)) 104 = 0x1C00000010"
proof -
  have b: "bytes_of 4 (28 :: 32 word) = [28, 0, 0, 0]"
    by (simp add: bytes_of_4)
  have c: "bytes_of 8 (16 :: 64 word) = [16, 0, 0, 0, 0, 0, 0, 0]"
    by (simp add: bytes_of_8)
  have l: "load_bytes 104 8 (write32 108 28 (write64 104 16 m)) = [16, 0, 0, 0, 28, 0, 0, 0]"
    by (simp add: load_bytes_8 write32_def write64_def b c)
  show ?thesis
    by (simp add: read64_def l)
qed


lemma overlapping_outputs:
  "\<exists>w'. bsn_curl_multi_info_read fake_curl 32 8 NULL 104 108 fake_world = Some (1, w') \<and>
     read64 (mem w') 104 = 0x1C00000010"
proof -
  have "read64 (write32 8 0 (fake_memory 1)) 72 = 16"
    using fake_message(2) [of 1] by simp
  moreover have "read32 (write64 104 16 (write32 8 0 (fake_memory 1))) 80 = 28"
    using fake_message(3) [of 1] by (simp add: read32_write64_other region_4 region_8)
  ultimately show ?thesis
    by (simp add: info_read_closed fake_world_def fake_info_read unpacked_def NULL_def
          overlapping_stores)
qed

text \<open>A store through \<open>NULL\<close> traps, so the guards of the source matter.\<close>

lemma store_NULL_traps:
  "store_int NULL v w = None"
  "store_pointer NULL p w = None"
  "store_CURLcode NULL c w = None"
  by (simp_all add: store_int_def store_pointer_def store_CURLcode_def)

lemmas forwarder_defs =
  bsn_curl_global_init_def bsn_curl_easy_init_def bsn_curl_easy_cleanup_def
  bsn_curl_easy_reset_def bsn_curl_easy_setopt_long_def bsn_curl_easy_setopt_ptr_def
  bsn_curl_easy_setopt_str_def bsn_curl_easy_setopt_write_callback_def
  bsn_curl_easy_setopt_xferinfo_callback_def bsn_curl_easy_perform_def
  bsn_curl_easy_getinfo_long_def bsn_curl_easy_strerror_def bsn_curl_slist_append_def
  bsn_curl_slist_free_all_def bsn_curl_easy_impersonate_def bsn_curl_multi_init_def
  bsn_curl_multi_cleanup_def bsn_curl_multi_add_handle_def bsn_curl_multi_remove_handle_def
  bsn_curl_multi_perform_def bsn_curl_multi_poll_def bsn_curl_multi_wakeup_def
  bsn_curl_multi_strerror_def

subsection \<open>Forwarding\<close>

text \<open>
  Claim C1, as stated: every exported function returns exactly what the wrapped libcurl
  function returns on the same arguments, with nothing added by the shim. This fails for
  \<^verbatim>\<open>bsn_curl_multi_info_read\<close>. With one message pending at address 64,
  \<^verbatim>\<open>curl_multi_info_read(32, 8)\<close> returns the pointer 64 and writes only \<^verbatim>\<open>*msgs_in_queue\<close>
  (at address 8); \<^verbatim>\<open>bsn_curl_multi_info_read(32, 8, 96, 104, 112)\<close> returns the \<^verbatim>\<open>int\<close> 1
  and has also written the objects at 96, 104 and 112: the \<^verbatim>\<open>CURLcode\<close> at 112 is 28
  after the shim's call and 0 after libcurl's.
\<close>

theorem forwarding_counterexample:
  "curl_multi_info_read fake_curl 32 8 fake_world
     = (64, \<lparr>mem = write32 8 0 (fake_memory 1), lib = []\<rparr>) \<and>
   bsn_curl_multi_info_read fake_curl 32 8 96 104 112 fake_world
     = Some (1, \<lparr>mem = write32 112 28 (write64 104 16 (write32 96 1
                       (write32 8 0 (fake_memory 1)))),
                lib = []\<rparr>) \<and>
   unat (1 :: c_int) \<noteq> unat (64 :: addr) \<and>
   read32 (write32 112 28 (write64 104 16 (write32 96 1 (write32 8 0 (fake_memory 1))))) 112
     = 28 \<and>
   read32 (write32 8 0 (fake_memory 1)) 112 = 0"
  by (simp add: info_read_closed fake_world_def fake_info_read fake_unpacked fake_elsewhere
        read32_write32_same NULL_def)

text \<open>
  Claim C1, amended. Twenty-two of the twenty-four exported functions return exactly
  what the wrapped libcurl function returns on the same arguments, and leave the world
  that function left (the five \<^verbatim>\<open>setopt\<close> functions and \<^verbatim>\<open>getinfo_long\<close> pass their typed
  value as the variadic argument). \<^verbatim>\<open>bsn_curl_multi_poll\<close> forwards its three arguments
  and inserts the constants \<open>NULL\<close> and 0. \<^verbatim>\<open>bsn_curl_multi_info_read\<close> calls
  \<^verbatim>\<open>curl_multi_info_read(multi_handle, msgs_in_queue)\<close>, returns 0 when that call returned
  \<open>NULL\<close> and 1 otherwise, and changes nothing of the world that call left except bytes
  of the objects its \<open>msg\<close>, \<open>easy_handle\<close> and \<open>result\<close> pointers refer to.
\<close>

theorem shim_forwards:
  fixes api :: "'l curl_api"
  shows
  "bsn_curl_global_init api flags w = curl_global_init api flags w \<and>
   bsn_curl_easy_init api w = curl_easy_init api w \<and>
   bsn_curl_easy_cleanup api easy_handle w = curl_easy_cleanup api easy_handle w \<and>
   bsn_curl_easy_reset api easy_handle w = curl_easy_reset api easy_handle w \<and>
   bsn_curl_easy_setopt_long api easy_handle option long_value w =
     curl_easy_setopt api easy_handle option (VaLong long_value) w \<and>
   bsn_curl_easy_setopt_ptr api easy_handle option ptr_value w =
     curl_easy_setopt api easy_handle option (VaPtr ptr_value) w \<and>
   bsn_curl_easy_setopt_str api easy_handle option ptr_value w =
     curl_easy_setopt api easy_handle option (VaPtr ptr_value) w \<and>
   bsn_curl_easy_setopt_write_callback api easy_handle option callback w =
     curl_easy_setopt api easy_handle option (VaFun callback) w \<and>
   bsn_curl_easy_setopt_xferinfo_callback api easy_handle option callback w =
     curl_easy_setopt api easy_handle option (VaFun callback) w \<and>
   bsn_curl_easy_perform api easy_handle w = curl_easy_perform api easy_handle w \<and>
   bsn_curl_easy_getinfo_long api easy_handle info ptr_value w =
     curl_easy_getinfo api easy_handle info (VaPtr ptr_value) w \<and>
   bsn_curl_easy_strerror api code w = curl_easy_strerror api code w \<and>
   bsn_curl_slist_append api list header w = curl_slist_append api list header w \<and>
   bsn_curl_slist_free_all api list w = curl_slist_free_all api list w \<and>
   bsn_curl_easy_impersonate api easy_handle target default_headers w =
     curl_easy_impersonate api easy_handle target default_headers w \<and>
   bsn_curl_multi_init api w = curl_multi_init api w \<and>
   bsn_curl_multi_cleanup api multi_handle w = curl_multi_cleanup api multi_handle w \<and>
   bsn_curl_multi_add_handle api multi_handle easy_handle w =
     curl_multi_add_handle api multi_handle easy_handle w \<and>
   bsn_curl_multi_remove_handle api multi_handle easy_handle w =
     curl_multi_remove_handle api multi_handle easy_handle w \<and>
   bsn_curl_multi_perform api multi_handle running_handles w =
     curl_multi_perform api multi_handle running_handles w \<and>
   bsn_curl_multi_wakeup api multi_handle w = curl_multi_wakeup api multi_handle w \<and>
   bsn_curl_multi_strerror api code w = curl_multi_strerror api code w \<and>
   bsn_curl_multi_poll api multi_handle timeout_ms numfds w =
     curl_multi_poll api multi_handle NULL 0 timeout_ms numfds w \<and>
   (\<exists>r w'.
      bsn_curl_multi_info_read api multi_handle msgs_in_queue msg easy_handle result w
        = Some (r, w') \<and>
      r = (if fst (curl_multi_info_read api multi_handle msgs_in_queue w) = NULL
           then 0 else 1) \<and>
      lib w' = lib (snd (curl_multi_info_read api multi_handle msgs_in_queue w)) \<and>
      (\<forall>a. a \<notin> out_region msg 4 \<union> out_region easy_handle 8 \<union> out_region result 4 \<longrightarrow>
         mem w' a = mem (snd (curl_multi_info_read api multi_handle msgs_in_queue w)) a))"
  unfolding forwarder_defs
  by (simp add: info_read_closed unpacked_frame split: prod.splits)

theorem shim_forwards_witness:
  "bsn_curl_easy_perform fake_curl 104 fake_world = (7, fake_world) \<and>
   bsn_curl_multi_poll fake_curl 32 1000 NULL fake_world = (0, fake_world) \<and>
   (\<exists>w'. bsn_curl_multi_info_read fake_curl 32 8 96 104 112 fake_world = Some (1, w') \<and>
      lib w' = [] \<and> mem w' 120 = 0)"
proof -
  note inst = shim_forwards [where api = fake_curl and w = fake_world and easy_handle = 104
      and multi_handle = 32 and timeout_ms = 1000 and numfds = NULL and msgs_in_queue = 8
      and msg = 96 and result = 112]
  have rd: "curl_multi_info_read fake_curl 32 8 fake_world
     = (64, \<lparr>mem = write32 8 0 (fake_memory 1), lib = []\<rparr>)"
    unfolding fake_world_def by (rule fake_info_read)
  from inst obtain r w' where
    run: "bsn_curl_multi_info_read fake_curl 32 8 96 104 112 fake_world = Some (r, w')" and
    r: "r = (if fst (curl_multi_info_read fake_curl 32 8 fake_world) = NULL then 0 else 1)" and
    l: "lib w' = lib (snd (curl_multi_info_read fake_curl 32 8 fake_world))" and
    frame: "\<forall>a. a \<notin> out_region 96 4 \<union> out_region 104 8 \<union> out_region 112 4 \<longrightarrow>
       mem w' a = mem (snd (curl_multi_info_read fake_curl 32 8 fake_world)) a"
    by blast
  have "r = 1" using r rd by (simp add: NULL_def)
  moreover have "lib w' = []" using l rd by simp
  moreover have "mem w' 120 = 0"
    using frame [rule_format, of 120] rd
    by (simp add: out_region_def NULL_def region_4 region_8 fake_elsewhere)
  moreover have "bsn_curl_easy_perform fake_curl 104 fake_world = (7, fake_world)"
    using inst by (simp add: fake_curl_def)
  moreover have "bsn_curl_multi_poll fake_curl 32 1000 NULL fake_world = (0, fake_world)"
    using inst by (simp add: fake_curl_def)
  ultimately show ?thesis using run by simp
qed

text \<open>
  Claim C3. For every multi handle, timeout and \<open>numfds\<close> pointer,
  \<^verbatim>\<open>bsn_curl_multi_poll(multi, timeout_ms, numfds)\<close> is
  \<^verbatim>\<open>curl_multi_poll(multi, NULL, 0, timeout_ms, numfds)\<close>: the same returned code and
  the same world after the call, whatever libcurl is. The set of extra descriptors
  handed to libcurl is always the empty one, so the wait is over the sockets of the
  multi handle alone.
\<close>

theorem bsn_curl_multi_poll_forwards:
  "bsn_curl_multi_poll api multi_handle timeout_ms numfds w =
     curl_multi_poll api multi_handle NULL 0 timeout_ms numfds w"
  by (simp add: bsn_curl_multi_poll_def)

theorem bsn_curl_multi_poll_forwards_witness:
  "bsn_curl_multi_poll fake_curl 32 250 12 fake_world = (0, fake_world)"
  using bsn_curl_multi_poll_forwards [of fake_curl 32 250 12 fake_world]
  by (simp add: fake_curl_def)

subsection \<open>Reading a completion message\<close>

text \<open>
  Claim C2. Let \<open>message\<close> be what \<^verbatim>\<open>curl_multi_info_read(multi_handle, msgs_in_queue)\<close>
  returns and \<open>w0\<close> the world it leaves. \<^verbatim>\<open>bsn_curl_multi_info_read\<close> returns, and the
  returned value is 1 exactly when \<open>message\<close> is not \<open>NULL\<close> and 0 exactly when it is.
  When it is not \<open>NULL\<close>, the memory after the call is the memory of \<open>w0\<close> after these
  stores, in this order, each done only if its pointer is not \<open>NULL\<close> and each of a value
  loaded from the message just before: \<^verbatim>\<open>message->msg\<close> as an \<^verbatim>\<open>int\<close> to \<open>*msg\<close>,
  \<^verbatim>\<open>message->easy_handle\<close> to \<open>*easy_handle\<close>, \<^verbatim>\<open>message->data.result\<close> to \<open>*result\<close>.
  After the call \<open>*msg\<close> holds the kind the message had in \<open>w0\<close> if the object at \<open>msg\<close>
  shares no byte with those at \<open>easy_handle\<close> and \<open>result\<close>; \<open>*easy_handle\<close> holds the easy
  handle the message had in \<open>w0\<close> if the object at \<open>msg\<close> shares no byte with that member
  of the message and the object at \<open>easy_handle\<close> none with the one at \<open>result\<close>;
  \<open>*result\<close> holds the result code the message had in \<open>w0\<close> if the objects at \<open>msg\<close> and
  \<open>easy_handle\<close> share no byte with that member of the message. (A \<open>NULL\<close> pointer
  stands for no object.)
\<close>

theorem bsn_curl_multi_info_read_unpacks:
  fixes api :: "'l curl_api"
  assumes "curl_multi_info_read api multi_handle msgs_in_queue w = (message, w0)"
  shows "\<exists>r w'.
     bsn_curl_multi_info_read api multi_handle msgs_in_queue msg easy_handle result w
       = Some (r, w') \<and>
     (r = 1 \<longleftrightarrow> message \<noteq> NULL) \<and> (r = 0 \<longleftrightarrow> message = NULL) \<and>
     (message \<noteq> NULL \<longrightarrow>
        lib w' = lib w0 \<and>
        mem w' =
          (let m1 = (if msg \<noteq> NULL
                     then write32 msg (read32 (mem w0) message) (mem w0)
                     else mem w0);
               m2 = (if easy_handle \<noteq> NULL
                     then write64 easy_handle (read64 m1 (message + 8)) m1
                     else m1)
           in if result \<noteq> NULL
              then write32 result (read32 m2 (message + 16)) m2
              else m2) \<and>
        (msg \<noteq> NULL \<and>
         region msg 4 \<inter> out_region easy_handle 8 = {} \<and>
         region msg 4 \<inter> out_region result 4 = {} \<longrightarrow>
           read32 (mem w') msg = read32 (mem w0) message) \<and>
        (easy_handle \<noteq> NULL \<and>
         region (message + 8) 8 \<inter> out_region msg 4 = {} \<and>
         region easy_handle 8 \<inter> out_region result 4 = {} \<longrightarrow>
           read64 (mem w') easy_handle = read64 (mem w0) (message + 8)) \<and>
        (result \<noteq> NULL \<and>
         region (message + 16) 4 \<inter> out_region msg 4 = {} \<and>
         region (message + 16) 4 \<inter> out_region easy_handle 8 = {} \<longrightarrow>
           read32 (mem w') result = read32 (mem w0) (message + 16)))"
proof (cases "message = NULL")
  case True
  with assms show ?thesis
    by (simp add: info_read_closed)
next
  case False
  let ?m = "unpacked (mem w0) message msg easy_handle result"
  from assms False have run:
    "bsn_curl_multi_info_read api multi_handle msgs_in_queue msg easy_handle result w
       = Some (1, w0\<lparr>mem := ?m\<rparr>)"
    by (simp add: info_read_closed)
  have exact: "?m =
          (let m1 = (if msg \<noteq> NULL
                     then write32 msg (read32 (mem w0) message) (mem w0)
                     else mem w0);
               m2 = (if easy_handle \<noteq> NULL
                     then write64 easy_handle (read64 m1 (message + 8)) m1
                     else m1)
           in if result \<noteq> NULL
              then write32 result (read32 m2 (message + 16)) m2
              else m2)"
    by (simp add: unpacked_def)
  have l: "lib (w0\<lparr>mem := ?m\<rparr>) = lib w0"
    by simp
  have k: "msg \<noteq> NULL \<and>
         region msg 4 \<inter> out_region easy_handle 8 = {} \<and>
         region msg 4 \<inter> out_region result 4 = {} \<longrightarrow>
           read32 (mem (w0\<lparr>mem := ?m\<rparr>)) msg = read32 (mem w0) message"
    by (simp add: unpacked_msg)
  have h: "easy_handle \<noteq> NULL \<and>
         region (message + 8) 8 \<inter> out_region msg 4 = {} \<and>
         region easy_handle 8 \<inter> out_region result 4 = {} \<longrightarrow>
           read64 (mem (w0\<lparr>mem := ?m\<rparr>)) easy_handle = read64 (mem w0) (message + 8)"
    by (simp add: unpacked_easy_handle)
  have c: "result \<noteq> NULL \<and>
         region (message + 16) 4 \<inter> out_region msg 4 = {} \<and>
         region (message + 16) 4 \<inter> out_region easy_handle 8 = {} \<longrightarrow>
           read32 (mem (w0\<lparr>mem := ?m\<rparr>)) result = read32 (mem w0) (message + 16)"
    by (simp add: unpacked_result)
  have e: "mem (w0\<lparr>mem := ?m\<rparr>) =
          (let m1 = (if msg \<noteq> NULL
                     then write32 msg (read32 (mem w0) message) (mem w0)
                     else mem w0);
               m2 = (if easy_handle \<noteq> NULL
                     then write64 easy_handle (read64 m1 (message + 8)) m1
                     else m1)
           in if result \<noteq> NULL
              then write32 result (read32 m2 (message + 16)) m2
              else m2)"
    using exact by simp
  from run False l e k h c show ?thesis
    by (intro exI [of _ 1] exI [of _ "w0\<lparr>mem := ?m\<rparr>"] conjI impI) simp_all
qed

text \<open>The witness: a message of kind 2, easy handle 16 and result code 28.\<close>

theorem bsn_curl_multi_info_read_unpacks_witness:
  "curl_multi_info_read fake_curl 32 8 (fake_world_kind 2)
     = (64, \<lparr>mem = write32 8 0 (fake_memory 2), lib = []\<rparr>) \<and>
   (64 :: addr) \<noteq> NULL \<and>
   (\<exists>w'. bsn_curl_multi_info_read fake_curl 32 8 96 104 112 (fake_world_kind 2)
            = Some (1, w') \<and>
      read32 (mem w') 96 = 2 \<and> read64 (mem w') 104 = 16 \<and> read32 (mem w') 112 = 28 \<and>
      lib w' = [])"
proof -
  let ?w0 = "\<lparr>mem = write32 8 0 (fake_memory 2), lib = ([] :: addr list)\<rparr>"
  note rd = fake_info_read [of 2]
  from bsn_curl_multi_info_read_unpacks [OF rd, of 96 104 112]
  obtain r w' where
    run: "bsn_curl_multi_info_read fake_curl 32 8 96 104 112 (fake_world_kind 2) = Some (r, w')"
    and r: "r = 1 \<longleftrightarrow> (64 :: addr) \<noteq> NULL"
    and l: "(64 :: addr) \<noteq> NULL \<longrightarrow> lib w' = lib ?w0"
    and k: "(64 :: addr) \<noteq> NULL \<longrightarrow>
        ((96 :: addr) \<noteq> NULL \<and>
         region 96 4 \<inter> out_region 104 8 = {} \<and>
         region 96 4 \<inter> out_region 112 4 = {} \<longrightarrow>
           read32 (mem w') 96 = read32 (mem ?w0) 64)"
    and h: "(64 :: addr) \<noteq> NULL \<longrightarrow>
        ((104 :: addr) \<noteq> NULL \<and>
         region (64 + 8) 8 \<inter> out_region 96 4 = {} \<and>
         region 104 8 \<inter> out_region 112 4 = {} \<longrightarrow>
           read64 (mem w') 104 = read64 (mem ?w0) (64 + 8))"
    and c: "(64 :: addr) \<noteq> NULL \<longrightarrow>
        ((112 :: addr) \<noteq> NULL \<and>
         region (64 + 16) 4 \<inter> out_region 96 4 = {} \<and>
         region (64 + 16) 4 \<inter> out_region 104 8 = {} \<longrightarrow>
           read32 (mem w') 112 = read32 (mem ?w0) (64 + 16))"
    by blast
  have n: "(64 :: addr) \<noteq> NULL"
    by (simp add: NULL_def)
  with r have r1: "r = 1"
    by simp
  from l n have "lib w' = []"
    by simp
  moreover from k n have "read32 (mem w') 96 = 2"
    using fake_message(1) [of 2]
    by (simp add: out_region_def NULL_def region_4 region_8)
  moreover from h n have "read64 (mem w') 104 = 16"
    using fake_message(2) [of 2]
    by (simp add: out_region_def NULL_def region_4 region_8)
  moreover from c n have "read32 (mem w') 112 = 28"
    using fake_message(3) [of 2]
    by (simp add: out_region_def NULL_def region_4 region_8)
  ultimately show ?thesis
    using run r1 rd n by simp
qed

text \<open>
  Claim C5. Whatever the five arguments are, \<open>NULL\<close> or not, and in every combination,
  \<^verbatim>\<open>bsn_curl_multi_info_read\<close> returns (it does not trap, and the only trap in the
  model is an access through \<open>NULL\<close>). Only bytes of the objects at those of \<open>msg\<close>,
  \<open>easy_handle\<close> and \<open>result\<close> that are not \<open>NULL\<close> can change, and when all three are
  \<open>NULL\<close> the world is the one libcurl left. When libcurl has a message the call returns
  1 and the stores through the pointers that are not \<open>NULL\<close> are done: under the same
  conditions on overlap as in claim C2, \<open>*msg\<close> holds the kind, \<open>*easy_handle\<close> the easy
  handle and \<open>*result\<close> the result code of the message.
\<close>

theorem bsn_curl_multi_info_read_NULL_safe:
  fixes api :: "'l curl_api"
  shows "\<exists>r w'.
     bsn_curl_multi_info_read api multi_handle msgs_in_queue msg easy_handle result w
       = Some (r, w') \<and>
     lib w' = lib (snd (curl_multi_info_read api multi_handle msgs_in_queue w)) \<and>
     (\<forall>a. a \<notin> out_region msg 4 \<union> out_region easy_handle 8 \<union> out_region result 4 \<longrightarrow>
        mem w' a = mem (snd (curl_multi_info_read api multi_handle msgs_in_queue w)) a) \<and>
     (msg = NULL \<and> easy_handle = NULL \<and> result = NULL \<longrightarrow>
        w' = snd (curl_multi_info_read api multi_handle msgs_in_queue w)) \<and>
     (fst (curl_multi_info_read api multi_handle msgs_in_queue w) \<noteq> NULL \<longrightarrow>
        r = 1 \<and>
        (msg \<noteq> NULL \<and>
         region msg 4 \<inter> out_region easy_handle 8 = {} \<and>
         region msg 4 \<inter> out_region result 4 = {} \<longrightarrow>
           read32 (mem w') msg =
             read32 (mem (snd (curl_multi_info_read api multi_handle msgs_in_queue w)))
               (fst (curl_multi_info_read api multi_handle msgs_in_queue w))) \<and>
        (easy_handle \<noteq> NULL \<and>
         region (fst (curl_multi_info_read api multi_handle msgs_in_queue w) + 8) 8
           \<inter> out_region msg 4 = {} \<and>
         region easy_handle 8 \<inter> out_region result 4 = {} \<longrightarrow>
           read64 (mem w') easy_handle =
             read64 (mem (snd (curl_multi_info_read api multi_handle msgs_in_queue w)))
               (fst (curl_multi_info_read api multi_handle msgs_in_queue w) + 8)) \<and>
        (result \<noteq> NULL \<and>
         region (fst (curl_multi_info_read api multi_handle msgs_in_queue w) + 16) 4
           \<inter> out_region msg 4 = {} \<and>
         region (fst (curl_multi_info_read api multi_handle msgs_in_queue w) + 16) 4
           \<inter> out_region easy_handle 8 = {} \<longrightarrow>
           read32 (mem w') result =
             read32 (mem (snd (curl_multi_info_read api multi_handle msgs_in_queue w)))
               (fst (curl_multi_info_read api multi_handle msgs_in_queue w) + 16)))"
proof -
  obtain message w0 where rd:
    "curl_multi_info_read api multi_handle msgs_in_queue w = (message, w0)"
    by (cases "curl_multi_info_read api multi_handle msgs_in_queue w")
  show ?thesis
  proof (cases "message = NULL")
    case True
    with rd show ?thesis
      by (simp add: info_read_closed)
  next
    case False
    with rd show ?thesis
      by (simp add: info_read_closed unpacked_frame unpacked_all_NULL unpacked_msg
            unpacked_easy_handle unpacked_result)
  qed
qed

theorem bsn_curl_multi_info_read_NULL_safe_witness:
  "\<exists>w'. bsn_curl_multi_info_read fake_curl 32 8 NULL 104 NULL fake_world = Some (1, w') \<and>
     mem w' 120 = 0 \<and> read64 (mem w') 104 = 16"
proof -
  have rd: "curl_multi_info_read fake_curl 32 8 fake_world
     = (64, \<lparr>mem = write32 8 0 (fake_memory 1), lib = []\<rparr>)"
    unfolding fake_world_def by (rule fake_info_read)
  from bsn_curl_multi_info_read_NULL_safe [of fake_curl 32 8 NULL 104 NULL fake_world]
  obtain r w' where
    run: "bsn_curl_multi_info_read fake_curl 32 8 NULL 104 NULL fake_world = Some (r, w')"
    and frame: "\<forall>a. a \<notin> out_region NULL 4 \<union> out_region 104 8 \<union> out_region NULL 4 \<longrightarrow>
        mem w' a = mem (snd (curl_multi_info_read fake_curl 32 8 fake_world)) a"
    and r: "fst (curl_multi_info_read fake_curl 32 8 fake_world) \<noteq> NULL \<longrightarrow> r = 1"
    and h: "fst (curl_multi_info_read fake_curl 32 8 fake_world) \<noteq> NULL \<longrightarrow>
        ((104 :: addr) \<noteq> NULL \<and>
         region (fst (curl_multi_info_read fake_curl 32 8 fake_world) + 8) 8
           \<inter> out_region NULL 4 = {} \<and>
         region 104 8 \<inter> out_region NULL 4 = {} \<longrightarrow>
           read64 (mem w') 104 =
             read64 (mem (snd (curl_multi_info_read fake_curl 32 8 fake_world)))
               (fst (curl_multi_info_read fake_curl 32 8 fake_world) + 8))"
    by blast
  from r rd have "r = 1"
    by (simp add: NULL_def)
  moreover from frame [rule_format, of 120] rd have "mem w' 120 = 0"
    by (simp add: out_region_def NULL_def region_8 fake_elsewhere)
  moreover from h rd have "read64 (mem w') 104 = 16"
    using fake_message(2) [of 1]
    by (simp add: out_region_def NULL_def)
  ultimately show ?thesis
    using run by simp
qed

text \<open>
  Claim C6. When \<^verbatim>\<open>curl_multi_info_read\<close> returns \<open>NULL\<close>, \<^verbatim>\<open>bsn_curl_multi_info_read\<close>
  returns 0 in exactly the world libcurl left: the shim has written nothing, at \<open>msg\<close>,
  \<open>easy_handle\<close>, \<open>result\<close> or anywhere else. And whenever the memory after the call is
  not the memory libcurl left, the returned value is 1.
\<close>

theorem bsn_curl_multi_info_read_no_message:
  fixes api :: "'l curl_api"
  shows "(fst (curl_multi_info_read api multi_handle msgs_in_queue w) = NULL \<longrightarrow>
      bsn_curl_multi_info_read api multi_handle msgs_in_queue msg easy_handle result w
        = Some (0, snd (curl_multi_info_read api multi_handle msgs_in_queue w))) \<and>
    (\<forall>r w'.
      bsn_curl_multi_info_read api multi_handle msgs_in_queue msg easy_handle result w
        = Some (r, w') \<and>
      mem w' \<noteq> mem (snd (curl_multi_info_read api multi_handle msgs_in_queue w)) \<longrightarrow> r = 1)"
  by (auto simp add: info_read_closed split: prod.splits if_splits)

theorem bsn_curl_multi_info_read_no_message_witness:
  "fst (curl_multi_info_read fake_curl 32 8 \<lparr>mem = fake_memory 1, lib = []\<rparr>) = NULL \<and>
   bsn_curl_multi_info_read fake_curl 32 8 96 104 112 \<lparr>mem = fake_memory 1, lib = []\<rparr>
     = Some (0, \<lparr>mem = write32 8 0 (fake_memory 1), lib = []\<rparr>)"
  using bsn_curl_multi_info_read_no_message
    [of fake_curl 32 8 "\<lparr>mem = fake_memory 1, lib = []\<rparr>" 96 104 112]
  by (simp add: fake_no_message)

subsection \<open>How outcomes reach the host\<close>

text \<open>
  Claim C4, as stated: every entry point returns its outcome as a \<^verbatim>\<open>CURLcode\<close>, a
  \<^verbatim>\<open>CURLMcode\<close> or the 0/1 flag, and the error of a completed transfer is delivered
  solely through the \<open>result\<close> output of \<^verbatim>\<open>bsn_curl_multi_info_read\<close>. Neither holds:
  \<^verbatim>\<open>bsn_curl_easy_init\<close> returns a pointer, and \<^verbatim>\<open>bsn_curl_easy_perform\<close> returns the code
  of its transfer (here 7) as its value, with nothing written to memory.
\<close>

theorem status_only_counterexample:
  "invoke fake_curl Bsn_curl_easy_init fake_world = Some (PtrValue 16, fake_world) \<and>
   \<not> is_status (PtrValue 16) \<and>
   bsn_curl_easy_perform fake_curl 16 fake_world = (7, fake_world)"
  by (simp add: returned_def bsn_curl_easy_init_def bsn_curl_easy_perform_def fake_curl_def)

text \<open>
  Claim C4, amended. No call of an entry point ends in a control-flow escape: each
  returns a value to the host. That value is a \<^verbatim>\<open>CURLcode\<close>, a \<^verbatim>\<open>CURLMcode\<close> or the 0/1
  flag of \<^verbatim>\<open>bsn_curl_multi_info_read\<close> for every entry point except \<^verbatim>\<open>bsn_curl_easy_init\<close>,
  \<^verbatim>\<open>bsn_curl_easy_cleanup\<close>, \<^verbatim>\<open>bsn_curl_easy_reset\<close>, \<^verbatim>\<open>bsn_curl_easy_strerror\<close>,
  \<^verbatim>\<open>bsn_curl_slist_append\<close>, \<^verbatim>\<open>bsn_curl_slist_free_all\<close>, \<^verbatim>\<open>bsn_curl_multi_init\<close> and
  \<^verbatim>\<open>bsn_curl_multi_strerror\<close>, which return a pointer or nothing. The result code of a
  completed transfer reaches the host as the value of \<^verbatim>\<open>bsn_curl_easy_perform\<close>, which is
  the value of \<^verbatim>\<open>curl_easy_perform\<close>, or, on the multi interface, in \<open>*result\<close> after a
  \<^verbatim>\<open>bsn_curl_multi_info_read\<close> that found a message and was given a \<open>result\<close> that is
  not \<open>NULL\<close> (and objects at \<open>msg\<close> and \<open>easy_handle\<close> that share no byte with the
  \<^verbatim>\<open>data\<close> member of the message).
\<close>

theorem shim_returns_status:
  fixes api :: "'l curl_api"
  shows "(\<exists>v w'. invoke api c w = Some (v, w') \<and> (is_status v \<longleftrightarrow> status_entry c)) \<and>
    fst (bsn_curl_easy_perform api easy w) = fst (curl_easy_perform api easy w) \<and>
    (fst (curl_multi_info_read api multi_handle msgs_in_queue w) \<noteq> NULL \<and> result \<noteq> NULL \<and>
     region (fst (curl_multi_info_read api multi_handle msgs_in_queue w) + 16) 4
       \<inter> out_region msg 4 = {} \<and>
     region (fst (curl_multi_info_read api multi_handle msgs_in_queue w) + 16) 4
       \<inter> out_region easy_handle 8 = {} \<longrightarrow>
      (\<exists>w'.
         bsn_curl_multi_info_read api multi_handle msgs_in_queue msg easy_handle result w
           = Some (1, w') \<and>
         read32 (mem w') result =
           read32 (mem (snd (curl_multi_info_read api multi_handle msgs_in_queue w)))
             (fst (curl_multi_info_read api multi_handle msgs_in_queue w) + 16)))"
proof (intro conjI)
  show "\<exists>v w'. invoke api c w = Some (v, w') \<and> (is_status v \<longleftrightarrow> status_entry c)"
    by (cases c) (auto simp add: returned_def info_read_closed split: prod.splits)
  show "fst (bsn_curl_easy_perform api easy w) = fst (curl_easy_perform api easy w)"
    by (simp add: bsn_curl_easy_perform_def)
  show "fst (curl_multi_info_read api multi_handle msgs_in_queue w) \<noteq> NULL \<and> result \<noteq> NULL \<and>
     region (fst (curl_multi_info_read api multi_handle msgs_in_queue w) + 16) 4
       \<inter> out_region msg 4 = {} \<and>
     region (fst (curl_multi_info_read api multi_handle msgs_in_queue w) + 16) 4
       \<inter> out_region easy_handle 8 = {} \<longrightarrow>
      (\<exists>w'.
         bsn_curl_multi_info_read api multi_handle msgs_in_queue msg easy_handle result w
           = Some (1, w') \<and>
         read32 (mem w') result =
           read32 (mem (snd (curl_multi_info_read api multi_handle msgs_in_queue w)))
             (fst (curl_multi_info_read api multi_handle msgs_in_queue w) + 16))"
    by (simp add: info_read_closed unpacked_result split: prod.splits)
qed

theorem shim_returns_status_witness:
  "(\<exists>v w'. invoke fake_curl (Bsn_curl_multi_info_read 32 8 96 104 112) fake_world
       = Some (v, w') \<and> is_status v) \<and>
   fst (bsn_curl_easy_perform fake_curl 16 fake_world) = 7 \<and>
   fst (curl_multi_info_read fake_curl 32 8 fake_world) \<noteq> NULL \<and> (112 :: addr) \<noteq> NULL \<and>
   (\<exists>w'. bsn_curl_multi_info_read fake_curl 32 8 96 104 112 fake_world = Some (1, w') \<and>
      read32 (mem w') 112 = 28)"
proof -
  have rd: "curl_multi_info_read fake_curl 32 8 fake_world
     = (64, \<lparr>mem = write32 8 0 (fake_memory 1), lib = []\<rparr>)"
    unfolding fake_world_def by (rule fake_info_read)
  note inst = shim_returns_status
    [of fake_curl "Bsn_curl_multi_info_read 32 8 96 104 112" fake_world 16 32 8 112 96 104]
  from inst have a: "\<exists>v w'. invoke fake_curl (Bsn_curl_multi_info_read 32 8 96 104 112)
      fake_world = Some (v, w') \<and> is_status v"
    by simp
  from inst have b: "fst (bsn_curl_easy_perform fake_curl 16 fake_world) = 7"
    by (simp add: fake_curl_def)
  have n: "fst (curl_multi_info_read fake_curl 32 8 fake_world) \<noteq> NULL"
    and n': "(112 :: addr) \<noteq> NULL"
    using rd by (simp_all add: NULL_def)
  from inst rd have c: "\<exists>w'. bsn_curl_multi_info_read fake_curl 32 8 96 104 112 fake_world
      = Some (1, w') \<and> read32 (mem w') 112 = 28"
    using fake_message(3) [of 1]
    by (simp add: out_region_def NULL_def region_4 region_8)
  from a b n n' c show ?thesis
    by (intro conjI)
qed

section \<open>Theorems about the components the specification describes\<close>

subsection \<open>Identity Profile Registry\<close>

lemma register_keeps:
  "reg n = Some p \<Longrightarrow> register q reg = Inr reg' \<Longrightarrow> reg' n = Some p"
  by (cases "reg (name q)") (auto simp add: register_def)

lemma register_all_keeps: "reg n = Some p \<Longrightarrow> register_all ps reg n = Some p"
proof (induction ps arbitrary: reg)
  case Nil
  then show ?case by simp
next
  case (Cons q ps)
  show ?case
  proof (cases "register q reg")
    case (Inl e)
    with Cons show ?thesis by simp
  next
    case (Inr reg')
    from Cons.prems Inr have "reg' n = Some p" by (rule register_keeps)
    with Cons.IH Inr show ?thesis by simp
  qed
qed

lemma register_all_other:
  "\<forall>p \<in> set ps. name p \<noteq> n \<Longrightarrow> register_all ps reg n = reg n"
proof (induction ps arbitrary: reg)
  case Nil
  then show ?case by simp
next
  case (Cons q ps)
  then have ih: "\<And>reg. register_all ps reg n = reg n" and q: "name q \<noteq> n"
    by simp_all
  show ?case
  proof (cases "reg (name q)")
    case None
    with q ih show ?thesis by (simp add: register_def)
  next
    case (Some a)
    with ih show ?thesis by (simp add: register_def)
  qed
qed

text \<open>
  Claim C8. If \<open>register P\<close> succeeds, then \<open>lookup\<close> of the name of \<open>P\<close> returns \<open>P\<close>
  itself, at once and after any later sequence of registrations; registering a profile
  \<open>Q\<close> of the same name fails with \<open>DuplicateProfile\<close>, at once and after any later
  sequence of registrations, and since a failed \<open>register\<close> returns no new registry the
  first registration stands. \<open>lookup\<close> of a name the registry does not hold, and in
  particular of a name none of the profiles registered from the empty registry has,
  fails with \<open>UnknownProfile\<close>.
\<close>

theorem registry_contract:
  "(register P reg = Inr reg' \<longrightarrow>
      lookup (name P) reg' = Inr P \<and>
      lookup (name P) (register_all later reg') = Inr P \<and>
      (name Q = name P \<longrightarrow>
         register Q reg' = Inl DuplicateProfile \<and>
         register Q (register_all later reg') = Inl DuplicateProfile)) \<and>
   (reg n = None \<longrightarrow> lookup n reg = Inl UnknownProfile) \<and>
   ((\<forall>p \<in> set ps. name p \<noteq> n) \<longrightarrow> lookup n (register_all ps Map.empty) = Inl UnknownProfile)"
proof (intro conjI impI)
  assume r: "register P reg = Inr reg'"
  then have here: "reg' (name P) = Some P"
    by (auto simp add: register_def split: option.splits)
  then show "lookup (name P) reg' = Inr P"
    by (simp add: lookup_def)
  from here have later: "register_all later reg' (name P) = Some P"
    by (rule register_all_keeps)
  then show "lookup (name P) (register_all later reg') = Inr P"
    by (simp add: lookup_def)
  assume "name Q = name P"
  with here show "register Q reg' = Inl DuplicateProfile"
    by (simp add: register_def)
  from \<open>name Q = name P\<close> later show "register Q (register_all later reg') = Inl DuplicateProfile"
    by (simp add: register_def)
next
  assume "reg n = None"
  then show "lookup n reg = Inl UnknownProfile"
    by (simp add: lookup_def)
next
  assume "\<forall>p \<in> set ps. name p \<noteq> n"
  then have "register_all ps Map.empty n = None"
    by (simp add: register_all_other)
  then show "lookup n (register_all ps Map.empty) = Inl UnknownProfile"
    by (simp add: lookup_def)
qed

theorem registry_contract_witness:
  "register chrome_120 Map.empty = Inr [''chrome-120'' \<mapsto> chrome_120] \<and>
   lookup ''chrome-120'' [''chrome-120'' \<mapsto> chrome_120] = Inr chrome_120 \<and>
   lookup ''chrome-120'' (register_all [chrome_120_again] [''chrome-120'' \<mapsto> chrome_120])
     = Inr chrome_120 \<and>
   register chrome_120_again [''chrome-120'' \<mapsto> chrome_120] = Inl DuplicateProfile \<and>
   lookup ''firefox-117'' (register_all [chrome_120] Map.empty) = Inl UnknownProfile"
proof -
  have r: "register chrome_120 Map.empty = Inr [''chrome-120'' \<mapsto> chrome_120]"
    by (simp add: register_def chrome_120_def)
  have n: "name chrome_120_again = name chrome_120"
    by (simp add: chrome_120_def chrome_120_again_def)
  have o: "\<forall>p \<in> set [chrome_120]. name p \<noteq> ''firefox-117''"
    by (simp add: chrome_120_def)
  note c = registry_contract [of chrome_120 Map.empty "[''chrome-120'' \<mapsto> chrome_120]"
      "[chrome_120_again]" chrome_120_again "''firefox-117''" "[chrome_120]"]
  have nm: "name chrome_120 = ''chrome-120''"
    by (simp add: chrome_120_def)
  from c r n o have
    "lookup (name chrome_120) [''chrome-120'' \<mapsto> chrome_120] = Inr chrome_120 \<and>
     lookup (name chrome_120)
       (register_all [chrome_120_again] [''chrome-120'' \<mapsto> chrome_120]) = Inr chrome_120 \<and>
     register chrome_120_again [''chrome-120'' \<mapsto> chrome_120] = Inl DuplicateProfile \<and>
     lookup ''firefox-117'' (register_all [chrome_120] Map.empty) = Inl UnknownProfile"
    by blast
  with r show ?thesis
    by (simp add: nm)
qed

subsection \<open>Multi-Transfer Scheduler\<close>

lemma live_complete:
  "live (complete r s) h \<longleftrightarrow> live s h \<and> h \<noteq> handleId r"
  by (auto simp add: complete_def live_def terminal_state_def split: option.splits)

lemma fold_complete:
  "\<exists>new. completed (fold complete xs s) = completed s @ new \<and>
     set new \<subseteq> set xs \<and>
     distinct (map handleId new) \<and>
     (\<forall>r \<in> set new. live s (handleId r)) \<and>
     (sorted (map handleId xs) \<longrightarrow> sorted (map handleId new)) \<and>
     (\<forall>h. live (fold complete xs s) h \<longleftrightarrow> live s h \<and> h \<notin> handleId ` set new) \<and>
     dom (schedulerSet (fold complete xs s)) = dom (schedulerSet s) \<and>
     (\<forall>r \<in> set xs. live s (handleId r) \<longrightarrow> handleId r \<in> handleId ` set new)"
proof (induction xs arbitrary: s)
  case Nil
  then show ?case by simp
next
  case (Cons r rs)
  obtain new where
    c: "completed (fold complete rs (complete r s)) = completed (complete r s) @ new" and
    sub: "set new \<subseteq> set rs" and
    d: "distinct (map handleId new)" and
    l: "\<forall>r' \<in> set new. live (complete r s) (handleId r')" and
    so: "sorted (map handleId rs) \<longrightarrow> sorted (map handleId new)" and
    lv: "\<forall>h. live (fold complete rs (complete r s)) h
           \<longleftrightarrow> live (complete r s) h \<and> h \<notin> handleId ` set new" and
    dm: "dom (schedulerSet (fold complete rs (complete r s))) = dom (schedulerSet (complete r s))" and
    al: "\<forall>r' \<in> set rs. live (complete r s) (handleId r') \<longrightarrow> handleId r' \<in> handleId ` set new"
    using Cons.IH [of "complete r s"] by blast
  show ?case
  proof (cases "live s (handleId r)")
    case True
    then have cs: "completed (complete r s) = completed s @ [r]"
      by (simp add: complete_def)
    have dms: "dom (schedulerSet (complete r s)) = dom (schedulerSet s)"
      using True by (auto simp add: complete_def live_def)
    have "completed (fold complete (r # rs) s) = completed s @ (r # new)"
      using c cs by simp
    moreover have "set (r # new) \<subseteq> set (r # rs)"
      using sub by auto
    moreover have "distinct (map handleId (r # new))"
      using d l by (auto simp add: live_complete)
    moreover have "\<forall>r' \<in> set (r # new). live s (handleId r')"
      using True l by (auto simp add: live_complete)
    moreover have "sorted (map handleId (r # rs)) \<longrightarrow> sorted (map handleId (r # new))"
      using so sub by auto
    moreover have "\<forall>h. live (fold complete (r # rs) s) h
        \<longleftrightarrow> live s h \<and> h \<notin> handleId ` set (r # new)"
      using lv by (auto simp add: live_complete)
    moreover have "dom (schedulerSet (fold complete (r # rs) s)) = dom (schedulerSet s)"
      using dm dms by simp
    moreover have "\<forall>r' \<in> set (r # rs). live s (handleId r')
        \<longrightarrow> handleId r' \<in> handleId ` set (r # new)"
      using al by (auto simp add: live_complete)
    ultimately show ?thesis by blast
  next
    case False
    then have same: "complete r s = s"
      by (simp add: complete_def)
    show ?thesis
      using c sub d l so lv dm al False
      by (intro exI [of _ new]) (auto simp add: same)
  qed
qed


lemma detect_appends:
  "\<exists>new. completed (detect ready s) = completed s @ new \<and>
     set new \<subseteq> set ready \<and>
     sorted_wrt (<) (map handleId new) \<and>
     (\<forall>r \<in> set new. live s (handleId r)) \<and>
     (\<forall>h. live (detect ready s) h \<longleftrightarrow> live s h \<and> h \<notin> handleId ` set new) \<and>
     dom (schedulerSet (detect ready s)) = dom (schedulerSet s) \<and>
     (\<forall>r \<in> set ready. live s (handleId r) \<longrightarrow> handleId r \<in> handleId ` set new)"
proof -
  obtain new where
    c: "completed (fold complete (sort_key handleId ready) s) = completed s @ new" and
    sub: "set new \<subseteq> set (sort_key handleId ready)" and
    d: "distinct (map handleId new)" and
    l: "\<forall>r \<in> set new. live s (handleId r)" and
    so: "sorted (map handleId (sort_key handleId ready)) \<longrightarrow> sorted (map handleId new)" and
    lv: "\<forall>h. live (fold complete (sort_key handleId ready) s) h
           \<longleftrightarrow> live s h \<and> h \<notin> handleId ` set new" and
    dm: "dom (schedulerSet (fold complete (sort_key handleId ready) s)) = dom (schedulerSet s)" and
    al: "\<forall>r \<in> set (sort_key handleId ready). live s (handleId r)
           \<longrightarrow> handleId r \<in> handleId ` set new"
    using fold_complete [of "sort_key handleId ready" s] by blast
  have "sorted (map handleId new)"
    using so by (simp add: sorted_sort_key)
  with d have "sorted_wrt (<) (map handleId new)"
    by (simp add: strict_sorted_iff)
  with c sub l lv dm al show ?thesis
    unfolding detect_def by (intro exI [of _ new]) simp
qed



lemma sched_inv_parts:
  "sched_inv A (s, drained) \<longleftrightarrow>
     distinct (map handleId (drained @ completed s)) \<and>
     dom (schedulerSet s) \<subseteq> A \<and>
     handleId ` (set drained \<union> set (completed s)) \<subseteq> A \<and>
     (\<forall>h. live s h \<longrightarrow> h \<notin> handleId ` (set drained \<union> set (completed s)))"
  by (simp add: sched_inv_def image_Un)

lemma live_dom: "live s h \<Longrightarrow> h \<in> dom (schedulerSet s)"
  by (auto simp add: live_def)

lemma sched_inv_detect:
  assumes "sched_inv A (s, drained)"
  shows "sched_inv A (detect ready s, drained)"
proof -
  from assms have
    d0: "distinct (map handleId (drained @ completed s))" and
    dA: "dom (schedulerSet s) \<subseteq> A" and
    iA: "handleId ` (set drained \<union> set (completed s)) \<subseteq> A" and
    lf: "\<forall>h. live s h \<longrightarrow> h \<notin> handleId ` (set drained \<union> set (completed s))"
    unfolding sched_inv_parts by blast+
  obtain new where
    c: "completed (detect ready s) = completed s @ new" and
    d: "sorted_wrt (<) (map handleId new)" and
    l: "\<forall>r \<in> set new. live s (handleId r)" and
    lv: "\<forall>h. live (detect ready s) h \<longleftrightarrow> live s h \<and> h \<notin> handleId ` set new" and
    dm: "dom (schedulerSet (detect ready s)) = dom (schedulerSet s)"
    using detect_appends [of ready s] by blast
  from d have dn: "distinct (map handleId new)"
    by (simp add: strict_sorted_iff)
  from l dA have lA: "handleId ` set new \<subseteq> A"
    by (blast dest: live_dom)
  have disj:
    "handleId ` (set drained \<union> set (completed s)) \<inter> handleId ` set new = {}"
  proof (rule equals0I)
    fix x
    assume x: "x \<in> handleId ` (set drained \<union> set (completed s)) \<inter> handleId ` set new"
    then obtain r where "r \<in> set new" and "x = handleId r"
      by auto
    with l have "live s x"
      by simp
    with lf have "x \<notin> handleId ` (set drained \<union> set (completed s))"
      by simp
    with x show False
      by simp
  qed
  have 1: "distinct (map handleId (drained @ completed (detect ready s)))"
    unfolding c using d0 dn disj
    by (simp add: image_Un Int_Un_distrib Int_Un_distrib2)
  have 2: "dom (schedulerSet (detect ready s)) \<subseteq> A"
    using dA dm by simp
  have 3: "handleId ` (set drained \<union> set (completed (detect ready s))) \<subseteq> A"
    unfolding c using iA lA by (simp add: image_Un)
  have 4: "\<forall>h. live (detect ready s) h
      \<longrightarrow> h \<notin> handleId ` (set drained \<union> set (completed (detect ready s)))"
    unfolding c using lf lv by (simp add: image_Un)
  from 1 2 3 4 show ?thesis
    unfolding sched_inv_parts by blast
qed


lemma sched_inv_drain:
  assumes "sched_inv A (s, drained)"
  shows "sched_inv A (snd (drainCompletions s), drained @ fst (drainCompletions s))"
proof -
  from assms have
    d0: "distinct (map handleId (drained @ completed s))" and
    dA: "dom (schedulerSet s) \<subseteq> A" and
    iA: "handleId ` (set drained \<union> set (completed s)) \<subseteq> A" and
    lf: "\<forall>h. live s h \<longrightarrow> h \<notin> handleId ` (set drained \<union> set (completed s))"
    unfolding sched_inv_parts by blast+
  have f: "fst (drainCompletions s) = completed s"
    by (simp add: drainCompletions_def)
  have c: "completed (snd (drainCompletions s)) = []"
    by (simp add: drainCompletions_def)
  have dm: "dom (schedulerSet (snd (drainCompletions s))) \<subseteq> dom (schedulerSet s)"
    by (auto simp add: drainCompletions_def split: if_splits)
  have lv: "\<forall>h. live (snd (drainCompletions s)) h \<longrightarrow> live s h"
    by (simp add: drainCompletions_def live_def)
  have 1: "distinct (map handleId ((drained @ fst (drainCompletions s))
      @ completed (snd (drainCompletions s))))"
    using d0 by (simp add: f c)
  have 2: "dom (schedulerSet (snd (drainCompletions s))) \<subseteq> A"
    using dm dA by (rule subset_trans)
  have 3: "handleId ` (set (drained @ fst (drainCompletions s))
      \<union> set (completed (snd (drainCompletions s)))) \<subseteq> A"
    using iA by (simp add: f c)
  have 4: "\<forall>h. live (snd (drainCompletions s)) h \<longrightarrow>
      h \<notin> handleId ` (set (drained @ fst (drainCompletions s))
        \<union> set (completed (snd (drainCompletions s))))"
    using lf lv by (simp add: f c)
  from 1 2 3 4 show ?thesis
    unfolding sched_inv_parts by blast
qed

lemma sched_inv_add:
  assumes "sched_inv A (s, drained)" and "h \<notin> A"
  shows "sched_inv (insert h A) (perform (AddHandle h) (s, drained))"
proof -
  from assms(1) have
    d0: "distinct (map handleId (drained @ completed s))" and
    dA: "dom (schedulerSet s) \<subseteq> A" and
    iA: "handleId ` (set drained \<union> set (completed s)) \<subseteq> A" and
    lf: "\<forall>h. live s h \<longrightarrow> h \<notin> handleId ` (set drained \<union> set (completed s))"
    unfolding sched_inv_parts by blast+
  from dA assms(2) have "schedulerSet s h = None"
    by (auto simp add: dom_def)
  then have p: "perform (AddHandle h) (s, drained)
      = (s\<lparr>schedulerSet := (schedulerSet s)(h \<mapsto> Registered)\<rparr>, drained)"
    by (simp add: addHandle_def)
  have hn: "h \<notin> handleId ` (set drained \<union> set (completed s))"
    using iA assms(2) by (rule contra_subsetD)
  have lv: "\<forall>k. live (s\<lparr>schedulerSet := (schedulerSet s)(h \<mapsto> Registered)\<rparr>) k
      \<longleftrightarrow> k = h \<or> live s k"
    using \<open>schedulerSet s h = None\<close> by (auto simp add: live_def)
  have 2: "dom (schedulerSet (s\<lparr>schedulerSet := (schedulerSet s)(h \<mapsto> Registered)\<rparr>))
      \<subseteq> insert h A"
    using dA by auto
  have 3: "handleId ` (set drained \<union> set (completed s)) \<subseteq> insert h A"
    using iA by (rule subset_insertI2)
  have 4: "\<forall>k. live (s\<lparr>schedulerSet := (schedulerSet s)(h \<mapsto> Registered)\<rparr>) k \<longrightarrow>
      k \<notin> handleId ` (set drained \<union> set (completed s))"
    using lv lf hn by simp
  show ?thesis
    unfolding p sched_inv_parts using d0 2 3 4 by simp
qed

lemma sched_inv_run:
  assumes "sched_inv A st" and "distinct (added calls)" and "set (added calls) \<inter> A = {}"
  shows "sched_inv (A \<union> set (added calls)) (fold perform calls st)"
  using assms
proof (induction calls arbitrary: st A)
  case Nil
  then show ?case by simp
next
  case (Cons c calls)
  obtain s drained where st: "st = (s, drained)"
    by (cases st)
  show ?case
  proof (cases c)
    case (AddHandle h)
    with Cons.prems have h: "h \<notin> A" and d: "distinct (added calls)"
      and i: "set (added calls) \<inter> insert h A = {}"
      by auto
    from Cons.prems(1) h have "sched_inv (insert h A) (perform (AddHandle h) (s, drained))"
      unfolding st by (rule sched_inv_add)
    from Cons.IH [OF this d i] show ?thesis
      unfolding AddHandle st by simp
  next
    case (PumpOnce ready)
    from Cons.prems(1) have "sched_inv A (detect ready s, drained)"
      unfolding st by (rule sched_inv_detect)
    from Cons.IH [OF this] Cons.prems(2,3) show ?thesis
      unfolding PumpOnce st by (simp add: pumpOnce_def)
  next
    case (Wait t ready)
    from Cons.prems(1) have "sched_inv A (detect ready s, drained)"
      unfolding st by (rule sched_inv_detect)
    from Cons.IH [OF this] Cons.prems(2,3) show ?thesis
      unfolding Wait st by (simp add: wait_def)
  next
    case DrainCompletions
    from Cons.prems(1)
    have "sched_inv A (snd (drainCompletions s), drained @ fst (drainCompletions s))"
      unfolding st by (rule sched_inv_drain)
    from Cons.IH [OF this] Cons.prems(2,3) show ?thesis
      unfolding DrainCompletions st by simp
  qed
qed

lemma sched_inv_empty: "sched_inv {} (empty_scheduler, [])"
  by (simp add: sched_inv_def empty_scheduler_def live_def)
lemma three_handles_eval:
  "three_handles = \<lparr>schedulerSet = [1 \<mapsto> Registered, 2 \<mapsto> Registered, 3 \<mapsto> Registered],
     completed = []\<rparr>"
  by (simp add: three_handles_def run_def addHandle_def empty_scheduler_def)

lemma scenario_eval:
  "snd (run scenario) = [done_record 2, done_record 3, done_record 1]"
  by (simp add: scenario_def run_def addHandle_def empty_scheduler_def wait_def pumpOnce_def
        detect_def complete_def live_def drainCompletions_def done_record_def terminal_state_def)

text \<open>
  Claim C9. One \<open>wait\<close> or \<open>pumpOnce\<close> call puts, after the records of earlier calls that
  are still to be drained, the records \<open>new\<close> of the handles found ready in this call:
  they are among those the transport reported, every live handle it reported has one,
  and their handle ids are strictly ascending. \<open>drainCompletions\<close> returns exactly the
  records waiting, in that order, and leaves none. In a run that submits no handle id
  twice, no handle id occurs twice among all the records drained or still to be drained.
  The order is that of detection: the scenario drains handle 2, then 3, then 1.
\<close>

theorem scheduler_completion_order:
  "(\<exists>new.
      fst (drainCompletions (wait timeoutMs ready s)) = completed s @ new \<and>
      fst (drainCompletions (snd (pumpOnce ready s))) = completed s @ new \<and>
      set new \<subseteq> set ready \<and>
      sorted_wrt (<) (map handleId new) \<and>
      (\<forall>r \<in> set ready. live s (handleId r) \<longrightarrow> handleId r \<in> handleId ` set new)) \<and>
   fst (drainCompletions s) = completed s \<and>
   completed (snd (drainCompletions s)) = [] \<and>
   (distinct (added calls) \<longrightarrow>
      distinct (map handleId (snd (run calls) @ completed (fst (run calls)))))"
proof (intro conjI impI)
  obtain new where
    c: "completed (detect ready s) = completed s @ new" and
    sub: "set new \<subseteq> set ready" and
    d: "sorted_wrt (<) (map handleId new)" and
    al: "\<forall>r \<in> set ready. live s (handleId r) \<longrightarrow> handleId r \<in> handleId ` set new"
    using detect_appends [of ready s] by blast
  from c have "fst (drainCompletions (wait timeoutMs ready s)) = completed s @ new"
    and "fst (drainCompletions (snd (pumpOnce ready s))) = completed s @ new"
    by (simp_all add: drainCompletions_def wait_def pumpOnce_def)
  with sub d al show "\<exists>new.
      fst (drainCompletions (wait timeoutMs ready s)) = completed s @ new \<and>
      fst (drainCompletions (snd (pumpOnce ready s))) = completed s @ new \<and>
      set new \<subseteq> set ready \<and>
      sorted_wrt (<) (map handleId new) \<and>
      (\<forall>r \<in> set ready. live s (handleId r) \<longrightarrow> handleId r \<in> handleId ` set new)"
    by blast
next
  show "fst (drainCompletions s) = completed s"
    by (simp add: drainCompletions_def)
next
  show "completed (snd (drainCompletions s)) = []"
    by (simp add: drainCompletions_def)
next
  assume "distinct (added calls)"
  with sched_inv_empty have "sched_inv ({} \<union> set (added calls)) (fold perform calls (empty_scheduler, []))"
    by (rule sched_inv_run) simp
  then show "distinct (map handleId (snd (run calls) @ completed (fst (run calls))))"
    by (simp add: sched_inv_def run_def)
qed

theorem scheduler_completion_order_witness:
  "fst (drainCompletions (wait 100 [done_record 3, done_record 2] three_handles))
     = [done_record 2, done_record 3] \<and>
   live three_handles (handleId (done_record 3)) \<and>
   distinct (added scenario) \<and>
   snd (run scenario) = [done_record 2, done_record 3, done_record 1] \<and>
   distinct (map handleId (snd (run scenario) @ completed (fst (run scenario))))"
proof -
  note t = scheduler_completion_order
    [of 100 "[done_record 3, done_record 2]" three_handles scenario]
  have a: "distinct (added scenario)"
    by (simp add: scenario_def)
  have d: "distinct (map handleId (snd (run scenario) @ completed (fst (run scenario))))"
    using t [THEN conjunct2, THEN conjunct2, THEN conjunct2] a by (rule mp)
  have w: "fst (drainCompletions (wait 100 [done_record 3, done_record 2] three_handles))
     = [done_record 2, done_record 3]"
    by (simp add: three_handles_eval wait_def detect_def complete_def live_def
          drainCompletions_def done_record_def terminal_state_def)
  have l: "live three_handles (handleId (done_record 3))"
    by (simp add: three_handles_eval live_def done_record_def)
  from w l a scenario_eval d show ?thesis
    by (intro conjI)
qed

end

